theory Spec2Isabelle
  imports Complex_Main
begin

section \<open>Python values, errors and string primitives\<close>

text \<open>
  The exceptions that the functions of \<^verbatim>\<open>irlib/survey.py\<close> raise or let escape.
  In Python 3 \<^verbatim>\<open>IOError\<close> is an alias of \<^verbatim>\<open>OSError\<close>, so one constructor stands for
  both (a failing \<^verbatim>\<open>h5py.File\<close> raises it as well).
\<close>

datatype py_error =
  IOError | TypeError | ValueError | IndexError | KeyError | AttributeError
  | EmptyLineError | SomehowExists

text \<open>List comprehension whose element expression may raise: the first exception wins.\<close>

fun mapM :: "('a \<Rightarrow> py_error + 'b) \<Rightarrow> 'a list \<Rightarrow> py_error + 'b list" where
  "mapM f [] = Inr []"
| "mapM f (x # xs) =
     (case f x of
        Inl e \<Rightarrow> Inl e
      | Inr y \<Rightarrow> (case mapM f xs of Inl e \<Rightarrow> Inl e | Inr ys \<Rightarrow> Inr (y # ys)))"

text \<open>\<^verbatim>\<open>xs[i]\<close> on a Python list: negative indices count from the end.\<close>

definition py_getitem :: "'a list \<Rightarrow> int \<Rightarrow> py_error + 'a" where
  "py_getitem xs i =
     (if 0 \<le> i \<and> i < int (length xs) then Inr (xs ! nat i)
      else if i < 0 \<and> - int (length xs) \<le> i then Inr (xs ! nat (int (length xs) + i))
      else Inl IndexError)"

text \<open>
  Slicing. \<^verbatim>\<open>slice_index n i\<close> is the position a slice bound \<^verbatim>\<open>i\<close> denotes in a
  list of length \<^verbatim>\<open>n\<close>: negative bounds count from the end, and every bound is
  clamped to \<^verbatim>\<open>0..n\<close>. \<^verbatim>\<open>xs[:hi]\<close> and \<^verbatim>\<open>xs[lo:]\<close> are the two one-sided slices
  the code uses; \<^verbatim>\<open>py_slice\<close> is the two-sided slice \<^verbatim>\<open>xs[lo:hi]\<close>, where
  \<^verbatim>\<open>None\<close> leaves a side open.
\<close>

definition slice_index :: "nat \<Rightarrow> int \<Rightarrow> nat" where
  "slice_index n i = (if i < 0 then nat (int n + i) else min n (nat i))"

definition py_slice_to :: "'a list \<Rightarrow> int \<Rightarrow> 'a list" where
  "py_slice_to xs hi = take (slice_index (length xs) hi) xs"

definition py_slice_from :: "'a list \<Rightarrow> int \<Rightarrow> 'a list" where
  "py_slice_from xs lo = drop (slice_index (length xs) lo) xs"

definition py_slice :: "'a list \<Rightarrow> int option \<Rightarrow> int option \<Rightarrow> 'a list" where
  "py_slice xs lo hi =
     (let n = length xs;
          a = (case lo of None \<Rightarrow> 0 | Some l \<Rightarrow> slice_index n l);
          b = (case hi of None \<Rightarrow> n | Some h \<Rightarrow> slice_index n h)
      in take (b - a) (drop a xs))"

subsection \<open>Strings\<close>

text \<open>\<^verbatim>\<open>str(n)\<close> for an integer, and the decimal digits it is made of.\<close>

definition digits :: string where
  "digits = ''0123456789''"

definition digit_chr :: "nat \<Rightarrow> char" where
  "digit_chr d = digits ! d"

definition is_digit :: "char \<Rightarrow> bool" where
  "is_digit c = (c \<in> set digits)"

definition digit_val :: "char \<Rightarrow> nat" where
  "digit_val c = length (takeWhile (\<lambda>x. x \<noteq> c) digits)"

fun str_nat :: "nat \<Rightarrow> string" where
  "str_nat n = (if n < 10 then [digit_chr n] else str_nat (n div 10) @ [digit_chr (n mod 10)])"

declare str_nat.simps [simp del]

definition py_str :: "int \<Rightarrow> string" where
  "py_str i = (if i < 0 then CHR ''-'' # str_nat (nat (- i)) else str_nat (nat i))"

text \<open>
  \<^verbatim>\<open>int(s)\<close> on a string, as Python 3 reads ASCII text: surrounding whitespace
  (tab, line feed, vertical tab, form feed, carriage return and space) is stripped, one
  sign is allowed, and the digits may be grouped by single underscores. Anything else
  raises \<^verbatim>\<open>ValueError\<close>.
\<close>

definition is_space :: "char \<Rightarrow> bool" where
  "is_space c = ((of_char c :: nat) \<in> {9, 10, 11, 12, 13, 32})"

definition strip :: "string \<Rightarrow> string" where
  "strip s = rev (dropWhile is_space (rev (dropWhile is_space s)))"

fun digits_ok :: "string \<Rightarrow> bool" where
  "digits_ok [] = False"
| "digits_ok [c] = is_digit c"
| "digits_ok (c # d # r) =
     (is_digit c \<and> (if d = CHR ''_'' then digits_ok r else digits_ok (d # r)))"

definition digits_value :: "string \<Rightarrow> nat" where
  "digits_value s = foldl (\<lambda>a c. 10 * a + digit_val c) 0 (filter (\<lambda>c. c \<noteq> CHR ''_'') s)"

definition py_int :: "string \<Rightarrow> py_error + int" where
  "py_int s =
     (let t = strip s;
          neg = (t \<noteq> [] \<and> hd t = CHR ''-'');
          body = (if t \<noteq> [] \<and> (hd t = CHR ''-'' \<or> hd t = CHR ''+'') then tl t else t)
      in if digits_ok body
         then Inr (if neg then - int (digits_value body) else int (digits_value body))
         else Inl ValueError)"

text \<open>\<^verbatim>\<open>s.split(c)\<close> for a one-character separator: always at least one field.\<close>

fun split_chr :: "char \<Rightarrow> string \<Rightarrow> string list" where
  "split_chr c [] = [[]]"
| "split_chr c (x # xs) =
     (if x = c then [] # split_chr c xs
      else (case split_chr c xs of [] \<Rightarrow> [[x]] | w # ws \<Rightarrow> (x # w) # ws))"

text \<open>\<^verbatim>\<open>s.rsplit(c, 1)\<close>: split once, at the last occurrence of the separator.\<close>

definition rsplit1 :: "char \<Rightarrow> string \<Rightarrow> string list" where
  "rsplit1 c s =
     (if c \<in> set s
      then [rev (drop 1 (dropWhile (\<lambda>x. x \<noteq> c) (rev s))), rev (takeWhile (\<lambda>x. x \<noteq> c) (rev s))]
      else [s])"

text \<open>\<^verbatim>\<open>s.rjust(w, c)\<close>: pad on the left up to width \<^verbatim>\<open>w\<close>.\<close>

definition rjust :: "nat \<Rightarrow> char \<Rightarrow> string \<Rightarrow> string" where
  "rjust w c s = replicate (w - length s) c @ s"

text \<open>\<^verbatim>\<open>sub in s\<close> for strings: \<^verbatim>\<open>sub\<close> occurs as a contiguous run of \<^verbatim>\<open>s\<close>.\<close>

fun contains :: "string \<Rightarrow> string \<Rightarrow> bool" where
  "contains sub [] = (sub = [])"
| "contains sub (x # xs) = (take (length sub) (x # xs) = sub \<or> contains sub xs)"

section \<open>The FID of a path: \<^verbatim>\<open>HDFpath2fid\<close>\<close>

text \<open>
  \<^verbatim>\<open>[int(a.rsplit("_",1)[1]) for a in path[1:].split("/")]\<close>: a component without an
  underscore raises \<^verbatim>\<open>IndexError\<close>, one whose suffix is no integer raises
  \<^verbatim>\<open>ValueError\<close>, and so does the unpacking into four names when the path does not
  have four components.
\<close>

definition component_index :: "string \<Rightarrow> py_error + int" where
  "component_index a =
     (case py_getitem (rsplit1 (CHR ''_'') a) 1 of
        Inl e \<Rightarrow> Inl e
      | Inr d \<Rightarrow> py_int d)"

definition HDFpath2fid :: "string \<Rightarrow> py_error + string" where
  "HDFpath2fid path =
     (case mapM component_index (split_chr (CHR ''/'') (drop 1 path)) of
        Inl e \<Rightarrow> Inl e
      | Inr [lin, loc, dc, ec] \<Rightarrow>
          Inr (rjust 4 (CHR ''0'') (py_str lin) @ rjust 4 (CHR ''0'') (py_str loc)
               @ rjust 4 (CHR ''0'') (py_str dc) @ rjust 4 (CHR ''0'') (py_str ec))
      | Inr _ \<Rightarrow> Inl ValueError)"

section \<open>The store and the world around it\<close>

text \<open>
  An HDF5 object is a dataset (a one-dimensional sample vector, as every leaf of the
  store layout is) or a group with named members. The members are listed in the order
  in which h5py iterates over them.
\<close>

datatype h5node = Dataset "real list" | Group "(string \<times> h5node) list"

type_synonym members = "(string \<times> h5node) list"

text \<open>
  \<^verbatim>\<open>g[name]\<close>: the name is resolved component by component; empty components (a
  doubled or trailing slash) are skipped, a missing member or a step into a dataset
  raises \<^verbatim>\<open>KeyError\<close>.
\<close>

fun h5_walk :: "h5node \<Rightarrow> string list \<Rightarrow> py_error + h5node" where
  "h5_walk nd [] = Inr nd"
| "h5_walk nd (c # cs) =
     (if c = [] then h5_walk nd cs
      else (case nd of
              Dataset v \<Rightarrow> Inl KeyError
            | Group ms \<Rightarrow>
                (case map_of ms c of None \<Rightarrow> Inl KeyError | Some ch \<Rightarrow> h5_walk ch cs)))"

definition h5_getitem :: "h5node \<Rightarrow> string \<Rightarrow> py_error + h5node" where
  "h5_getitem g name = h5_walk g (split_chr (CHR ''/'') name)"

text \<open>
  \<^verbatim>\<open>g.visit(names.append)\<close>: every object below the group, parents before their
  members, under its name relative to the group.
\<close>

fun visit_node :: "string \<Rightarrow> h5node \<Rightarrow> string list"
  and visit_members :: "string \<Rightarrow> members \<Rightarrow> string list" where
  "visit_node pre (Dataset v) = []"
| "visit_node pre (Group ms) = visit_members pre ms"
| "visit_members pre [] = []"
| "visit_members pre (m # ms) =
     (pre @ fst m) # visit_node (pre @ fst m @ ''/'') (snd m) @ visit_members pre ms"

definition visit :: "h5node \<Rightarrow> string list" where
  "visit g = visit_node [] g"

text \<open>\<^verbatim>\<open>.keys()\<close> is an attribute of groups only.\<close>

definition h5_keys :: "h5node \<Rightarrow> py_error + string list" where
  "h5_keys nd = (case nd of Group ms \<Rightarrow> Inr (map fst ms) | Dataset v \<Rightarrow> Inl AttributeError)"

text \<open>\<^verbatim>\<open>len(obj)\<close>: the number of members of a group, the length of a sample vector.\<close>

definition h5_len :: "h5node \<Rightarrow> nat" where
  "h5_len nd = (case nd of Group ms \<Rightarrow> length ms | Dataset v \<Rightarrow> length v)"

definition is_Group :: "h5node \<Rightarrow> bool" where
  "is_Group nd = (case nd of Group ms \<Rightarrow> True | Dataset v \<Rightarrow> False)"

definition is_Dataset :: "h5node \<Rightarrow> bool" where
  "is_Dataset nd = (case nd of Group ms \<Rightarrow> False | Dataset v \<Rightarrow> True)"

text \<open>
  The file system maps a path to what is there. The world also records every call of
  \<^verbatim>\<open>h5py.File\<close> (path and whether it was opened for writing) and what was written to
  the two output streams.

  Reading from a dataset of an open file can fail. \<^verbatim>\<open>faults\<close> says, for a file, the
  absolute name of a dataset in it and one of the two reads that \<^verbatim>\<open>ExtractLine\<close> and
  \<^verbatim>\<open>ExtractTrace\<close> make, which exception that read raises, if any: \<^verbatim>\<open>ReadShape\<close> is
  \<^verbatim>\<open>ds.shape[0]\<close>, and \<^verbatim>\<open>ReadSamples\<close> is \<^verbatim>\<open>ds[:]\<close> together with what is done with
  the samples in the same statement. The faults do not change during a call.
\<close>

datatype read_op = ReadShape | ReadSamples

datatype fs_entry = HDF5 members | OtherFile | Directory

datatype diagnostic =
  NoDatasetsMatch | BoundsNotPair | ParseErrorMessage string | MalformedPath string
  | FailedToIndex string | AlreadyExists | LineWritten string

record world =
  files :: "string \<Rightarrow> fs_entry option"
  opened :: "(string \<times> bool) list"
  stderr :: "diagnostic list"
  stdout :: "diagnostic list"
  faults :: "string \<times> string \<times> read_op \<Rightarrow> py_error option"

definition isfile :: "world \<Rightarrow> string \<Rightarrow> bool" where
  "isfile w p = (case files w p of Some (HDF5 r) \<Rightarrow> True | Some OtherFile \<Rightarrow> True | _ \<Rightarrow> False)"

definition exists_path :: "world \<Rightarrow> string \<Rightarrow> bool" where
  "exists_path w p = (files w p \<noteq> None)"

definition write_stderr :: "diagnostic \<Rightarrow> world \<Rightarrow> world" where
  "write_stderr d w = w\<lparr>stderr := stderr w @ [d]\<rparr>"

definition print :: "diagnostic \<Rightarrow> world \<Rightarrow> world" where
  "print d w = w\<lparr>stdout := stdout w @ [d]\<rparr>"

text \<open>
  \<^verbatim>\<open>h5py.File(p, "r")\<close> (also the mode of \<^verbatim>\<open>h5py.File(p)\<close>): the rt group of an
  existing HDF5 file, an I/O error otherwise.
\<close>

definition h5py_File_r :: "world \<Rightarrow> string \<Rightarrow> (py_error + members) \<times> world" where
  "h5py_File_r w p =
     (let w' = w\<lparr>opened := opened w @ [(p, False)]\<rparr>
      in case files w p of Some (HDF5 rt) \<Rightarrow> (Inr rt, w') | _ \<Rightarrow> (Inl IOError, w'))"

text \<open>\<^verbatim>\<open>h5py.File(p, "w")\<close>: creates the file, truncating what was there.\<close>

definition h5py_File_w :: "world \<Rightarrow> string \<Rightarrow> (py_error + unit) \<times> world" where
  "h5py_File_w w p =
     (let w' = w\<lparr>opened := opened w @ [(p, True)]\<rparr>
      in case files w p of
           Some Directory \<Rightarrow> (Inl IOError, w')
         | _ \<Rightarrow> (Inr (), w'\<lparr>files := (files w')(p \<mapsto> HDF5 [])\<rparr>))"

section \<open>The retention map\<close>

text \<open>
  Modelled from the spec: the class \<^verbatim>\<open>AutoVivification\<close> (module
  \<^verbatim>\<open>irlib/autovivification.py\<close>) is not among the sources. The spec describes a mapping
  from line identifier to a mapping from location identifier to a boolean, in which an
  absent location reads as true and is inserted by the read, and an absent line is
  inserted with an empty mapping when it is addressed.
\<close>

type_synonym retention = "string \<Rightarrow> (string \<Rightarrow> bool option) option"

definition av_view :: "retention \<Rightarrow> string \<Rightarrow> (string \<Rightarrow> bool option) \<times> retention" where
  "av_view r lname = (case r lname of None \<Rightarrow> (Map.empty, r(lname \<mapsto> Map.empty)) | Some m \<Rightarrow> (m, r))"

definition av_set :: "retention \<Rightarrow> string \<Rightarrow> string \<Rightarrow> bool \<Rightarrow> retention" where
  "av_set r lname loc v = (let (m, r') = av_view r lname in r'(lname \<mapsto> m(loc \<mapsto> v)))"

definition av_get :: "retention \<Rightarrow> string \<Rightarrow> string \<Rightarrow> bool \<times> retention" where
  "av_get r lname loc =
     (let (m, r') = av_view r lname
      in case m loc of None \<Rightarrow> (True, r'(lname \<mapsto> m(loc \<mapsto> True))) | Some b \<Rightarrow> (b, r'))"

text \<open>Whether a (line, location) pair is present in the map, and with which value.\<close>

definition retained :: "retention \<Rightarrow> string \<Rightarrow> string \<Rightarrow> bool option" where
  "retained r lname loc = (case r lname of None \<Rightarrow> None | Some m \<Rightarrow> m loc)"

section \<open>The survey\<close>

text \<open>
  The attributes of a \<^verbatim>\<open>Survey\<close>: \<^verbatim>\<open>self.f\<close> (here \<^verbatim>\<open>survey_f\<close>), \<^verbatim>\<open>self.datafile\<close> and
  \<^verbatim>\<open>self.retain\<close>.
\<close>

record survey =
  survey_f :: "members option"
  datafile :: string
  retain :: retention

text \<open>
  \<^verbatim>\<open>Survey.__init__\<close>. The inner loop runs over \<^verbatim>\<open>list(f)\<close>, the names at the top of
  the file, for every top-level name that is a group.
\<close>

fun init_locations :: "retention \<Rightarrow> string \<Rightarrow> string list \<Rightarrow> retention" where
  "init_locations r lname [] = r"
| "init_locations r lname (location # rest) = init_locations (av_set r lname location True) lname rest"

fun init_lines :: "members \<Rightarrow> retention \<Rightarrow> string list \<Rightarrow> py_error + retention" where
  "init_lines rt r [] = Inr r"
| "init_lines rt r (lname # rest) =
     (case h5_getitem (Group rt) lname of
        Inl e \<Rightarrow> Inl e
      | Inr (Group ms) \<Rightarrow> init_lines rt (init_locations r lname (map fst rt)) rest
      | Inr (Dataset v) \<Rightarrow> init_lines rt r rest)"

definition Survey_init :: "world \<Rightarrow> string \<Rightarrow> (py_error + survey) \<times> world" where
  "Survey_init w path =
     (if \<not> isfile w path then (Inl IOError, w)
      else (case h5py_File_r w path of
              (Inl e, w') \<Rightarrow> (Inl e, w')
            | (Inr rt, w') \<Rightarrow>
                (case init_lines rt Map.empty (map fst rt) of
                   Inl e \<Rightarrow> (Inl e, w')
                 | Inr r \<Rightarrow> (Inr \<lparr>survey_f = None, datafile = path, retain = r\<rparr>, w'))))"

text \<open>
  \<^verbatim>\<open>list.sort(key=...)\<close>: the keys of all elements are computed first (the first
  exception wins), then the list is sorted by them, stably.
\<close>

definition sort_by_key :: "('a \<Rightarrow> py_error + int) \<Rightarrow> 'a list \<Rightarrow> py_error + 'a list" where
  "sort_by_key k xs =
     (case mapM k xs of Inl e \<Rightarrow> Inl e | Inr ks \<Rightarrow> Inr (map snd (sort_key fst (zip ks xs))))"

text \<open>\<^verbatim>\<open>GetLines\<close>: the top-level names that start with \<^verbatim>\<open>line\<close>, by their number.\<close>

definition line_key :: "string \<Rightarrow> py_error + int" where
  "line_key s = (case py_getitem (split_chr (CHR ''_'') s) 1 of Inl e \<Rightarrow> Inl e | Inr d \<Rightarrow> py_int d)"

definition GetLines :: "world \<Rightarrow> survey \<Rightarrow> (py_error + string list) \<times> world" where
  "GetLines w S =
     (case h5py_File_r w (datafile S) of
        (Inl e, w') \<Rightarrow> (Inl e, w')
      | (Inr rt, w') \<Rightarrow>
          (sort_by_key line_key (filter (\<lambda>name. take 4 name = ''line'') (map fst rt)), w'))"

text \<open>
  \<^verbatim>\<open>GetChannelsInLine\<close>. The handler of \<^verbatim>\<open>IndexError\<close> evaluates
  \<^verbatim>\<open>len(self.GetLines)\<close>, the length of a bound method, which raises \<^verbatim>\<open>TypeError\<close>.
\<close>

definition py_max :: "nat list \<Rightarrow> py_error + nat" where
  "py_max ns = (case ns of [] \<Rightarrow> Inl ValueError | n # rest \<Rightarrow> Inr (fold max rest n))"

definition GetChannelsInLine :: "world \<Rightarrow> survey \<Rightarrow> int \<Rightarrow> (py_error + nat) \<times> world" where
  "GetChannelsInLine w S lineno =
     (case GetLines w S of
        (Inl e, w1) \<Rightarrow> (if e = IndexError then (Inl TypeError, w1) else (Inl e, w1))
      | (Inr lines, w1) \<Rightarrow>
          (case py_getitem lines lineno of
             Inl e \<Rightarrow> (Inl TypeError, w1)
           | Inr lname \<Rightarrow>
               (case h5py_File_r w1 (datafile S) of
                  (Inl e, w2) \<Rightarrow> (Inl e, w2)
                | (Inr rt, w2) \<Rightarrow>
                    (case h5_getitem (Group rt) lname of
                       Inl e \<Rightarrow> (Inl e, w2)
                     | Inr lg \<Rightarrow>
                         (case h5_keys lg of
                            Inl e \<Rightarrow> (Inl e, w2)
                          | Inr locs \<Rightarrow>
                              if length locs = 0 then (Inl EmptyLineError, w2)
                              else (case mapM (\<lambda>loc. case h5_getitem lg loc of
                                                        Inl e \<Rightarrow> Inl e
                                                      | Inr nd \<Rightarrow> Inr (h5_len nd)) locs of
                                      Inl e \<Rightarrow> (Inl e, w2)
                                    | Inr n_datacaptures \<Rightarrow> (py_max n_datacaptures, w2)))))))"

section \<open>Extracting one trace: \<^verbatim>\<open>ExtractTrace\<close>\<close>

text \<open>
  The address of a leaf by its four indices, as \<^verbatim>\<open>ExtractTrace\<close> formats it:
  \<^verbatim>\<open>line_{lin}/location_{loc}/datacapture_{dc}/echogram_{eg}\<close>.
\<close>

definition trace_path :: "int \<Rightarrow> int \<Rightarrow> int \<Rightarrow> int \<Rightarrow> string" where
  "trace_path lin loc dc eg =
     ''line_'' @ py_str lin @ ''/location_'' @ py_str loc
     @ ''/datacapture_'' @ py_str dc @ ''/echogram_'' @ py_str eg"

definition ExtractTrace ::
  "world \<Rightarrow> survey \<Rightarrow> int \<Rightarrow> int \<Rightarrow> int \<Rightarrow> int \<Rightarrow> (py_error + real list) \<times> world" where
  "ExtractTrace w S line location datacapture echogram =
     (case h5py_File_r w (datafile S) of
        (Inl e, w') \<Rightarrow> (Inl e, w')
      | (Inr rt, w') \<Rightarrow>
          (case h5_getitem (Group rt) (trace_path line location datacapture echogram) of
             Inl e \<Rightarrow> (Inl e, w')
           | Inr (Dataset v) \<Rightarrow>
               (case faults w (datafile S,
                               ''/'' @ trace_path line location datacapture echogram,
                               ReadSamples) of
                  Some e \<Rightarrow> (Inl e, w')
                | None \<Rightarrow> (Inr v, w'))
           | Inr (Group ms) \<Rightarrow> (Inl TypeError, w')))"

section \<open>Extracting a line: \<^verbatim>\<open>ExtractLine\<close>\<close>

text \<open>
  The model covers the calls with \<^verbatim>\<open>fromcache=False\<close> (the default, and what
  \<^verbatim>\<open>__getitem__\<close> uses). \<^verbatim>\<open>line\<close> is an integer, \<^verbatim>\<open>bounds\<close> a sequence whose
  elements are integers or \<^verbatim>\<open>None\<close>, and \<^verbatim>\<open>datacapture\<close> one integer or an
  iterable of integers.
\<close>

datatype selector = Single int | Many "int list"

definition allowed_datacaptures :: "selector \<Rightarrow> string list" where
  "allowed_datacaptures datacapture =
     (case datacapture of
        Many dcs \<Rightarrow> map (\<lambda>dc. ''datacapture_'' @ py_str dc) dcs
      | Single dc \<Rightarrow> [''datacapture_'' @ py_str dc])"

text \<open>\<^verbatim>\<open>ds.name\<close>: the absolute name of the object \<^verbatim>\<open>f[path][name]\<close>.\<close>

definition ds_name :: "string \<Rightarrow> string \<Rightarrow> string" where
  "ds_name path name = ''/'' @ path @ ''/'' @ name"

text \<open>
  The condition of the filtering comprehension, for one visited name. The parent
  \<^verbatim>\<open>name.split("/")[-2]\<close> is only evaluated for a dataset that is not picked data, and
  raises \<^verbatim>\<open>IndexError\<close> for a dataset that lies directly in the line group.
\<close>

definition keeps :: "h5node \<Rightarrow> string \<Rightarrow> string list \<Rightarrow> string \<Rightarrow> py_error + bool" where
  "keeps lg path allowed name =
     (case h5_getitem lg name of
        Inl e \<Rightarrow> Inl e
      | Inr ds \<Rightarrow>
          if is_Dataset ds \<and> \<not> contains ''picked'' (ds_name path name)
          then (case py_getitem (split_chr (CHR ''/'') name) (- 2) of
                  Inl e \<Rightarrow> Inl e
                | Inr parent \<Rightarrow> Inr (parent \<in> set allowed))
          else Inr False)"

fun filterM :: "('a \<Rightarrow> py_error + bool) \<Rightarrow> 'a list \<Rightarrow> py_error + 'a list" where
  "filterM p [] = Inr []"
| "filterM p (x # xs) =
     (case p x of
        Inl e \<Rightarrow> Inl e
      | Inr b \<Rightarrow>
          (case filterM p xs of Inl e \<Rightarrow> Inl e | Inr ys \<Rightarrow> Inr (if b then x # ys else ys)))"

text \<open>
  The sort key \<^verbatim>\<open>int(s.split('/')[0].split('_')[1])\<close>; the first field of a split
  always exists.
\<close>

definition location_key :: "string \<Rightarrow> py_error + int" where
  "location_key s =
     (case py_getitem (split_chr (CHR ''_'') (hd (split_chr (CHR ''/'') s))) 1 of
        Inl e \<Rightarrow> Inl e
      | Inr d \<Rightarrow> py_int d)"

text \<open>
  The bounds: a warning when they are not two, then \<^verbatim>\<open>datasets[:bounds[1]]\<close> and
  after it \<^verbatim>\<open>datasets[bounds[0]:]\<close>, each only for a bound that is not \<^verbatim>\<open>None\<close>.
\<close>

definition apply_bounds ::
  "world \<Rightarrow> int option list \<Rightarrow> 'a list \<Rightarrow> (py_error + 'a list) \<times> world" where
  "apply_bounds w bounds datasets =
     (let w1 = (if length bounds \<noteq> 2 then write_stderr BoundsNotPair w else w)
      in case py_getitem bounds 1 of
           Inl e \<Rightarrow> (Inl e, w1)
         | Inr hi \<Rightarrow>
             (let datasets1 = (case hi of None \<Rightarrow> datasets | Some h \<Rightarrow> py_slice_to datasets h)
              in case py_getitem bounds 0 of
                   Inl e \<Rightarrow> (Inl e, w1)
                 | Inr lo \<Rightarrow>
                     (Inr (case lo of None \<Rightarrow> datasets1 | Some l \<Rightarrow> py_slice_from datasets1 l),
                      w1)))"

text \<open>Lines 179 to 209: the names kept, sorted and cut to the bounds.\<close>

definition select_datasets ::
  "world \<Rightarrow> h5node \<Rightarrow> string \<Rightarrow> int option list \<Rightarrow> selector
     \<Rightarrow> (py_error + string list) \<times> world" where
  "select_datasets w lg path bounds datacapture =
     (case filterM (keeps lg path (allowed_datacaptures datacapture)) (visit lg) of
        Inl e \<Rightarrow> (Inl e, w)
      | Inr datasets \<Rightarrow>
          (let w1 = (if length datasets = 0 then write_stderr NoDatasetsMatch w else w)
           in case sort_by_key location_key datasets of
                Inl e \<Rightarrow> (Inl e, w1)
              | Inr sorted_datasets \<Rightarrow> apply_bounds w1 bounds sorted_datasets))"

text \<open>
  The metadata collaborator \<^verbatim>\<open>RecordList\<close> (module \<^verbatim>\<open>irlib/recordlist.py\<close>) is a
  parameter: its constructor, \<^verbatim>\<open>AddDataset\<close> with the three outcomes that
  \<^verbatim>\<open>ExtractLine\<close> distinguishes, and \<^verbatim>\<open>CropRecords\<close>.
\<close>

datatype add_outcome = Added | ParseError diagnostic | AddValueError

record 'm recordlist_ops =
  RecordList :: "string \<Rightarrow> 'm"
  AddDataset :: "'m \<Rightarrow> h5node \<Rightarrow> string \<Rightarrow> add_outcome \<times> 'm"
  CropRecords :: "'m \<Rightarrow> 'm"

fun grab_metadata ::
  "'m recordlist_ops \<Rightarrow> h5node \<Rightarrow> string \<Rightarrow> 'm \<Rightarrow> world \<Rightarrow> string list
     \<Rightarrow> (py_error + 'm) \<times> world" where
  "grab_metadata ops lg path metadata w [] = (Inr metadata, w)"
| "grab_metadata ops lg path metadata w (trace # rest) =
     (let fullpath = path @ ''/'' @ trace
      in case h5_getitem lg trace of
           Inl e \<Rightarrow> (Inl e, w)
         | Inr ds \<Rightarrow>
             (case HDFpath2fid fullpath of
                Inl e \<Rightarrow>
                  if e = ValueError
                  then grab_metadata ops lg path metadata
                         (write_stderr (MalformedPath fullpath) w) rest
                  else (Inl e, w)
              | Inr fid \<Rightarrow>
                  (case AddDataset ops metadata ds fid of
                     (Added, md) \<Rightarrow> grab_metadata ops lg path md w rest
                   | (ParseError msg, md) \<Rightarrow>
                       grab_metadata ops lg path (CropRecords ops md) (write_stderr msg w) rest
                   | (AddValueError, md) \<Rightarrow>
                       grab_metadata ops lg path md
                         (write_stderr (MalformedPath fullpath) w) rest)))"

subsection \<open>The array\<close>

text \<open>A two-dimensional numpy array: its shape and its rows.\<close>

record ndarray =
  shape :: "nat \<times> nat"
  rows :: "real list list"

definition np_zeros :: "nat \<times> nat \<Rightarrow> ndarray" where
  "np_zeros sh = \<lparr>shape = sh, rows = replicate (fst sh) (replicate (snd sh) 0)\<rparr>"

text \<open>
  \<^verbatim>\<open>arr[j, :n] = v\<close>: the target is the first \<^verbatim>\<open>min n ncols\<close> cells of row \<^verbatim>\<open>j\<close>;
  \<^verbatim>\<open>v\<close> must have that length, or length one (it is then broadcast); any other
  length raises \<^verbatim>\<open>ValueError\<close>.
\<close>

definition set_row_prefix :: "ndarray \<Rightarrow> nat \<Rightarrow> nat \<Rightarrow> real list \<Rightarrow> py_error + ndarray" where
  "set_row_prefix arr j n v =
     (let tgt = min n (snd (shape arr))
      in if fst (shape arr) \<le> j then Inl IndexError
         else if length v = tgt
           then Inr (arr\<lparr>rows := (rows arr)[j := v @ drop tgt (rows arr ! j)]\<rparr>)
         else if length v = 1
           then Inr (arr\<lparr>rows := (rows arr)[j := replicate tgt (hd v) @ drop tgt (rows arr ! j)]\<rparr>)
         else Inl ValueError)"

text \<open>\<^verbatim>\<open>arr.T\<close>.\<close>

definition transpose_nd :: "ndarray \<Rightarrow> ndarray" where
  "transpose_nd arr =
     \<lparr>shape = (snd (shape arr), fst (shape arr)),
      rows = map (\<lambda>i. map (\<lambda>r. r ! i) (rows arr)) [0..<snd (shape arr)]\<rparr>"

text \<open>
  \<^verbatim>\<open>line_ptr[dataset].shape[0]\<close> and \<^verbatim>\<open>line_ptr[dataset][:]\<close>. The argument \<^verbatim>\<open>flt\<close>
  gives the faults of the datasets of the line, by their names relative to the line
  group.
\<close>

type_synonym line_faults = "string \<Rightarrow> read_op \<Rightarrow> py_error option"

definition sample_count :: "line_faults \<Rightarrow> h5node \<Rightarrow> string \<Rightarrow> py_error + nat" where
  "sample_count flt lg dataset =
     (case h5_getitem lg dataset of
        Inl e \<Rightarrow> Inl e
      | Inr (Dataset v) \<Rightarrow>
          (case flt dataset ReadShape of Some e \<Rightarrow> Inl e | None \<Rightarrow> Inr (length v))
      | Inr (Group ms) \<Rightarrow> Inl AttributeError)"

definition read_samples :: "line_faults \<Rightarrow> h5node \<Rightarrow> string \<Rightarrow> py_error + real list" where
  "read_samples flt lg dataset =
     (case h5_getitem lg dataset of
        Inl e \<Rightarrow> Inl e
      | Inr (Dataset v) \<Rightarrow>
          (case flt dataset ReadSamples of Some e \<Rightarrow> Inl e | None \<Rightarrow> Inr v)
      | Inr (Group ms) \<Rightarrow> Inl TypeError)"

text \<open>The loop \<^verbatim>\<open>for j, dataset in enumerate(datasets)\<close>.\<close>

fun fill_rows ::
  "line_faults \<Rightarrow> h5node \<Rightarrow> nat list \<Rightarrow> ndarray \<Rightarrow> nat \<Rightarrow> string list
     \<Rightarrow> py_error + ndarray" where
  "fill_rows flt lg nsamples arr j [] = Inr arr"
| "fill_rows flt lg nsamples arr j (dataset # rest) =
     (case read_samples flt lg dataset of
        Inl e \<Rightarrow> Inl e
      | Inr v \<Rightarrow>
          (case set_row_prefix arr j (nsamples ! j) v of
             Inl e \<Rightarrow> Inl e
           | Inr arr' \<Rightarrow> fill_rows flt lg nsamples arr' (Suc j) rest))"

text \<open>The body of the \<^verbatim>\<open>try\<close> block: \<^verbatim>\<open>max\<close> of an empty list raises \<^verbatim>\<open>ValueError\<close>.\<close>

definition build_array ::
  "line_faults \<Rightarrow> h5node \<Rightarrow> nat list \<Rightarrow> string list \<Rightarrow> py_error + ndarray" where
  "build_array flt lg nsamples datasets =
     (case py_max nsamples of
        Inl e \<Rightarrow> Inl e
      | Inr maxsamples \<Rightarrow>
          fill_rows flt lg nsamples (np_zeros (length datasets, maxsamples)) 0 datasets)"

subsection \<open>The gather and the whole extraction\<close>

text \<open>
  The gather class (module \<^verbatim>\<open>irlib/gather.py\<close>) is a collaborator; a gather is
  represented by the arguments its constructor receives.
\<close>

record 'm gather =
  g_data :: ndarray
  g_infile :: string
  g_line :: int
  g_metadata :: 'm
  g_retain :: "string \<Rightarrow> bool option"
  g_dc :: selector

text \<open>\<^verbatim>\<open>'line_{lin}'.format(lin=line)\<close>, the name of the line group.\<close>

definition line_path :: "int \<Rightarrow> string" where
  "line_path line = ''line_'' @ py_str line"

text \<open>The faults of the datasets of a line of a file.\<close>

definition faults_in :: "world \<Rightarrow> string \<Rightarrow> string \<Rightarrow> line_faults" where
  "faults_in w file path = (\<lambda>name op. faults w (file, ds_name path name, op))"

text \<open>
  The sample counts are read before the \<^verbatim>\<open>try\<close> block, so an exception of theirs
  escapes. A \<^verbatim>\<open>ValueError\<close> in the \<^verbatim>\<open>try\<close> block is caught: a message goes to stderr and
  the method returns \<^verbatim>\<open>None\<close>. The result is \<^verbatim>\<open>Inr None\<close> then, \<^verbatim>\<open>Inr (Some g)\<close>
  for a gather and \<^verbatim>\<open>Inl e\<close> for an exception that escapes.
\<close>

definition ExtractLine ::
  "'m recordlist_ops \<Rightarrow> world \<Rightarrow> survey \<Rightarrow> int \<Rightarrow> int option list \<Rightarrow> selector
     \<Rightarrow> (py_error + 'm gather option) \<times> world \<times> survey" where
  "ExtractLine ops w S line bounds datacapture =
     (let path = line_path line
      in case h5py_File_r w (datafile S) of
           (Inl e, w1) \<Rightarrow> (Inl e, w1, S)
         | (Inr rt, w1) \<Rightarrow>
             (case h5_getitem (Group rt) path of
                Inl e \<Rightarrow> (Inl e, w1, S)
              | Inr (Dataset v) \<Rightarrow> (Inl AttributeError, w1, S)
              | Inr (Group ms) \<Rightarrow>
                  (case select_datasets w1 (Group ms) path bounds datacapture of
                     (Inl e, w2) \<Rightarrow> (Inl e, w2, S)
                   | (Inr datasets, w2) \<Rightarrow>
                       (case grab_metadata ops (Group ms) path (RecordList ops (datafile S))
                               w2 datasets of
                          (Inl e, w3) \<Rightarrow> (Inl e, w3, S)
                        | (Inr metadata, w3) \<Rightarrow>
                            (case mapM (sample_count (faults_in w (datafile S) path)
                                          (Group ms)) datasets of
                               Inl e \<Rightarrow> (Inl e, w3, S)
                             | Inr nsamples \<Rightarrow>
                                 (case build_array (faults_in w (datafile S) path)
                                         (Group ms) nsamples datasets of
                                    Inl e \<Rightarrow>
                                      if e = ValueError
                                      then (Inr None, write_stderr (FailedToIndex path) w3, S)
                                      else (Inl e, w3, S)
                                  | Inr arr \<Rightarrow>
                                      (let (view, r) = av_view (retain S) path
                                       in (Inr (Some \<lparr>g_data = transpose_nd arr,
                                                       g_infile = datafile S, g_line = line,
                                                       g_metadata = metadata, g_retain = view,
                                                       g_dc = datacapture\<rparr>),
                                           w3, S\<lparr>retain := r\<rparr>))))))))"

section \<open>Indexing a survey: \<^verbatim>\<open>__getitem__\<close>\<close>

text \<open>
  A key is an integer, a tuple of keys, or a value of any other type (\<^verbatim>\<open>KOther\<close>:
  a string, a float, \<^verbatim>\<open>None\<close>, a list, ...). Booleans, which Python counts as
  integers but formats as \<^verbatim>\<open>True\<close> and \<^verbatim>\<open>False\<close>, are not represented.
\<close>

datatype py_key = KInt int | KTuple "py_key list" | KOther

definition getitem ::
  "'m recordlist_ops \<Rightarrow> world \<Rightarrow> survey \<Rightarrow> py_key
     \<Rightarrow> (py_error + 'm gather option) \<times> world \<times> survey" where
  "getitem ops w S key =
     (case key of
        KInt i \<Rightarrow> ExtractLine ops w S i [None, None] (Single 0)
      | KTuple ks \<Rightarrow>
          if length ks = 2
          then (case (ks ! 0, ks ! 1) of
                  (KInt i, KInt j) \<Rightarrow> ExtractLine ops w S i [None, None] (Single j)
                | _ \<Rightarrow> (Inl TypeError, w, S))
          else (Inl ValueError, w, S)
      | KOther \<Rightarrow> (Inl TypeError, w, S))"

section \<open>Writing the retained part: \<^verbatim>\<open>WriteHDF5\<close>\<close>

text \<open>
  \<^verbatim>\<open>self.f.copy(line/location, fout[line])\<close> puts the subtree into the destination
  group under its own name, and fails when that name is taken.
\<close>

definition add_member :: "members \<Rightarrow> string \<Rightarrow> string \<times> h5node \<Rightarrow> members" where
  "add_member out g m =
     map (\<lambda>(n, nd). if n = g then (case nd of Group ms \<Rightarrow> (n, Group (ms @ [m]))
                                             | Dataset v \<Rightarrow> (n, nd))
                     else (n, nd)) out"

fun copy_locations ::
  "members \<Rightarrow> string \<Rightarrow> members \<Rightarrow> retention \<Rightarrow> string list
     \<Rightarrow> (py_error + unit) \<times> members \<times> retention" where
  "copy_locations src lname out r [] = (Inr (), out, r)"
| "copy_locations src lname out r (location # rest) =
     (let (keep, r1) = av_get r lname location
      in if keep
         then (case h5_getitem (Group src) (lname @ ''/'' @ location) of
                 Inl e \<Rightarrow> (Inl e, out, r1)
               | Inr nd \<Rightarrow>
                   (case h5_getitem (Group out) (lname @ ''/'' @ location) of
                      Inr taken \<Rightarrow> (Inl ValueError, out, r1)
                    | Inl e \<Rightarrow>
                        copy_locations src lname (add_member out lname (location, nd)) r1 rest))
         else copy_locations src lname out r1 rest)"

fun write_lines ::
  "members \<Rightarrow> members \<Rightarrow> retention \<Rightarrow> world \<Rightarrow> string list
     \<Rightarrow> (py_error + unit) \<times> members \<times> retention \<times> world" where
  "write_lines src out r w [] = (Inr (), out, r, w)"
| "write_lines src out r w (lname # rest) =
     (case h5_getitem (Group src) lname of
        Inl e \<Rightarrow> (Inl e, out, r, w)
      | Inr (Dataset v) \<Rightarrow> write_lines src out r w rest
      | Inr (Group locs) \<Rightarrow>
          if lname \<in> fst ` set out then (Inl SomehowExists, out, r, w)
          else (case copy_locations src lname (out @ [(lname, Group [])]) r (map fst locs) of
                  (Inl e, out1, r1) \<Rightarrow> (Inl e, out1, r1, print (LineWritten lname) w)
                | (Inr u, out1, r1) \<Rightarrow>
                    write_lines src out1 r1 (print (LineWritten lname) w) rest))"

text \<open>
  \<^verbatim>\<open>WriteHDF5\<close>. The destination is opened (and so truncated) before the loop over
  \<^verbatim>\<open>self.f\<close> starts; iterating over \<^verbatim>\<open>None\<close> raises \<^verbatim>\<open>TypeError\<close>. Whatever the
  destination holds when the \<^verbatim>\<open>with\<close> block is left stays in the file.
\<close>

definition WriteHDF5 ::
  "world \<Rightarrow> survey \<Rightarrow> string \<Rightarrow> bool \<Rightarrow> (py_error + unit) \<times> world \<times> survey" where
  "WriteHDF5 w S fnm overwrite =
     (if exists_path w fnm \<and> \<not> overwrite then (Inr (), print AlreadyExists w, S)
      else (case h5py_File_w w fnm of
              (Inl e, w1) \<Rightarrow> (Inl e, w1, S)
            | (Inr u, w1) \<Rightarrow>
                (case survey_f S of
                   None \<Rightarrow> (Inl TypeError, w1, S)
                 | Some src \<Rightarrow>
                     (case write_lines src [] (retain S) w1 (map fst src) of
                        (res, out, r, w2) \<Rightarrow>
                          (res, w2\<lparr>files := (files w2)(fnm \<mapsto> HDF5 out)\<rparr>, S\<lparr>retain := r\<rparr>)))))"

section \<open>The layout of a store\<close>

text \<open>
  The name of a member of an HDF5 group is not empty and contains no slash, and no two
  members of a group have the same name.
\<close>

definition valid_name :: "string \<Rightarrow> bool" where
  "valid_name n = (n \<noteq> [] \<and> CHR ''/'' \<notin> set n)"

definition valid_members :: "members \<Rightarrow> bool" where
  "valid_members ms = (distinct (map fst ms) \<and> list_all valid_name (map fst ms))"

text \<open>
  The number of channel groups under a location, and the layout of a location: a
  group (with valid member names) all of whose members are channel groups.
\<close>

definition channel_groups :: "h5node \<Rightarrow> nat" where
  "channel_groups nd =
     (case nd of Group ms \<Rightarrow> length (filter (\<lambda>m. is_Group (snd m)) ms) | Dataset v \<Rightarrow> 0)"

definition is_location :: "h5node \<Rightarrow> bool" where
  "is_location nd =
     (case nd of Group ms \<Rightarrow> list_all (\<lambda>m. is_Group (snd m)) ms | Dataset v \<Rightarrow> False)"

section \<open>A small store\<close>

text \<open>
  A store with two lines, used to run the functions: \<^verbatim>\<open>line_0\<close> has the locations 0,
  10 and 2 (in the order in which the file lists them) with 5, 7 and 3 samples, each
  with three channels, and picked data beside the first channel's echogram; \<^verbatim>\<open>line_1\<close>
  has no location.
\<close>

definition ex_location :: "real list \<Rightarrow> h5node" where
  "ex_location v =
     Group [(''datacapture_0'', Group [(''echogram_0'', Dataset v), (''picked'', Dataset [9])]),
            (''datacapture_1'', Group [(''echogram_0'', Dataset (map (\<lambda>x. x + 100) v))]),
            (''datacapture_2'', Group [(''echogram_0'', Dataset (map (\<lambda>x. x + 200) v))])]"

definition ex_line0 :: members where
  "ex_line0 =
     [(''location_0'', ex_location [1, 2, 3, 4, 5]),
      (''location_10'', ex_location [1, 2, 3, 4, 5, 6, 7]),
      (''location_2'', ex_location [1, 2, 3])]"

definition ex_store :: members where
  "ex_store = [(''line_0'', Group ex_line0), (''line_1'', Group [])]"

definition ex_world :: world where
  "ex_world = \<lparr>files = [''s.h5'' \<mapsto> HDF5 ex_store], opened = [], stderr = [], stdout = [],
                faults = Map.empty\<rparr>"

definition ex_ops :: "string list recordlist_ops" where
  "ex_ops = \<lparr>RecordList = (\<lambda>p. []), AddDataset = (\<lambda>md ds fid. (Added, md @ [fid])),
             CropRecords = butlast\<rparr>"

definition ex_survey :: survey where
  "ex_survey = \<lparr>survey_f = None, datafile = ''s.h5'', retain = Map.empty\<rparr>"

text \<open>
  The same store with a fault: reading the samples of the channel-0 record of location 2
  raises the given exception; and with a fault of the shape of that record.
\<close>

definition ex_samples_fault :: "py_error \<Rightarrow> world" where
  "ex_samples_fault e =
     ex_world\<lparr>faults := [(''s.h5'', ''/line_0/location_2/datacapture_0/echogram_0'', ReadSamples)
                               \<mapsto> e]\<rparr>"

definition ex_shape_fault :: "py_error \<Rightarrow> world" where
  "ex_shape_fault e =
     ex_world\<lparr>faults := [(''s.h5'', ''/line_0/location_2/datacapture_0/echogram_0'', ReadShape)
                               \<mapsto> e]\<rparr>"

text \<open>
  A store whose line 0 has two records in channel 0; the leaf of the second is named
  \<^verbatim>\<open>echogram\<close>, without an index.
\<close>

definition ex_bare_line0 :: members where
  "ex_bare_line0 =
     [(''location_0'', Group [(''datacapture_0'', Group [(''echogram_0'', Dataset [1, 2])])]),
      (''location_1'', Group [(''datacapture_0'', Group [(''echogram'', Dataset [3, 4, 5])])])]"

definition ex_bare_store :: members where
  "ex_bare_store = [(''line_0'', Group ex_bare_line0)]"

definition ex_bare_world :: world where
  "ex_bare_world = ex_world\<lparr>files := [''s.h5'' \<mapsto> HDF5 ex_bare_store]\<rparr>"

text \<open>
  A store whose lines are not numbered from 0: \<^verbatim>\<open>line_1\<close> has one location with two
  channels, \<^verbatim>\<open>line_3\<close> has one location with five channels.
\<close>

definition ex_channels :: "nat \<Rightarrow> h5node" where
  "ex_channels n =
     Group (map (\<lambda>i. (''datacapture_'' @ str_nat i, Group [(''echogram_0'', Dataset [0])])) [0..<n])"

definition ex_gap_store :: members where
  "ex_gap_store =
     [(''line_1'', Group [(''location_0'', ex_channels 2)]),
      (''line_3'', Group [(''location_0'', ex_channels 5)])]"

definition ex_gap_world :: world where
  "ex_gap_world = ex_world\<lparr>files := [''s.h5'' \<mapsto> HDF5 ex_gap_store]\<rparr>"

section \<open>Opening a survey\<close>

text \<open>
  C9. When the path does not name an existing file, \<^verbatim>\<open>Survey(path)\<close> raises
  \<^verbatim>\<open>IOError\<close>: no survey (and no retention map) is produced, and the world is as it
  was, so no file was opened.
\<close>

theorem C9_no_file_IOError:
  assumes "\<not> isfile w path"
  shows "Survey_init w path = (Inl IOError, w)"
  using assms by (simp add: Survey_init_def)

theorem C9_no_file_IOError_witness:
  "\<not> isfile ex_world ''missing.h5''
   \<and> Survey_init ex_world ''missing.h5'' = (Inl IOError, ex_world)"
proof -
  have h: "\<not> isfile ex_world ''missing.h5''"
    by (simp add: isfile_def ex_world_def)
  from h C9_no_file_IOError [OF h] show ?thesis by simp
qed

section \<open>Indexing\<close>

text \<open>
  C10. \<^verbatim>\<open>S[i]\<close> is \<^verbatim>\<open>ExtractLine(i, datacapture=0)\<close> and \<^verbatim>\<open>S[(i, j)]\<close> is
  \<^verbatim>\<open>ExtractLine(i, datacapture=j)\<close>, with the default bounds. A key that is neither an
  integer nor a tuple raises \<^verbatim>\<open>TypeError\<close>, and so does a pair with a component that
  is not an integer; a tuple whose length is not 2 raises \<^verbatim>\<open>ValueError\<close>. In the
  failing cases the world and the survey are unchanged.
\<close>

theorem C10_getitem:
  "getitem ops w S (KInt i) = ExtractLine ops w S i [None, None] (Single 0)
   \<and> getitem ops w S (KTuple [KInt i, KInt j]) = ExtractLine ops w S i [None, None] (Single j)
   \<and> getitem ops w S KOther = (Inl TypeError, w, S)
   \<and> (length ks \<noteq> 2 \<longrightarrow> getitem ops w S (KTuple ks) = (Inl ValueError, w, S))
   \<and> ((\<forall>n. a \<noteq> KInt n) \<or> (\<forall>n. b \<noteq> KInt n)
        \<longrightarrow> getitem ops w S (KTuple [a, b]) = (Inl TypeError, w, S))"
  by (cases a; cases b) (simp_all add: getitem_def)

theorem C10_getitem_witness:
  "getitem ex_ops ex_world ex_survey (KTuple [KInt 0, KInt 1, KInt 2])
     = (Inl ValueError, ex_world, ex_survey)
   \<and> getitem ex_ops ex_world ex_survey (KTuple [KInt 0, KOther])
     = (Inl TypeError, ex_world, ex_survey)
   \<and> getitem ex_ops ex_world ex_survey (KTuple [KTuple [], KInt 0])
     = (Inl TypeError, ex_world, ex_survey)"
  using C10_getitem [of ex_ops ex_world ex_survey 0 0 "[KInt 0, KInt 1, KInt 2]" "KInt 0" KOther]
    C10_getitem [of ex_ops ex_world ex_survey 0 0 "[]" "KTuple []" "KInt 0"]
  by simp

section \<open>Bounds\<close>

lemma slice_index_le: "slice_index n i \<le> n"
  by (auto simp add: slice_index_def)

text \<open>
  C3 (as amended). For a bounds pair \<^verbatim>\<open>(lo, hi)\<close> whose lower bound is \<^verbatim>\<open>None\<close> or
  not negative, or whose upper bound is \<^verbatim>\<open>None\<close>, cutting to \<^verbatim>\<open>[:hi]\<close> and then to
  \<^verbatim>\<open>[lo:]\<close> gives the list that the one slice \<^verbatim>\<open>[lo:hi]\<close> gives, for every list of
  candidates, and nothing is written to stderr.
\<close>

theorem C3_bounds_as_slice:
  assumes "lo = None \<or> hi = None \<or> (\<exists>l. lo = Some l \<and> 0 \<le> l)"
  shows "apply_bounds w [lo, hi] datasets = (Inr (py_slice datasets lo hi), w)"
proof (cases hi)
  case None
  then show ?thesis
    by (cases lo) (simp_all add: apply_bounds_def py_getitem_def py_slice_def py_slice_from_def)
next
  case (Some h)
  show ?thesis
  proof (cases lo)
    case None
    with Some show ?thesis
      by (simp add: apply_bounds_def py_getitem_def py_slice_def py_slice_to_def)
  next
    case lo: (Some l)
    with assms Some have l: "0 \<le> l" by simp
    define n where "n = length datasets"
    define b where "b = slice_index n h"
    have bn: "b \<le> n" by (simp add: b_def slice_index_le)
    have "drop (slice_index (length (take b datasets)) l) (take b datasets)
            = take (b - slice_index n l) (drop (slice_index n l) datasets)"
      using l bn by (auto simp add: slice_index_def n_def drop_take min_def)
    with Some lo show ?thesis
      by (simp add: apply_bounds_def py_getitem_def py_slice_def py_slice_to_def
          py_slice_from_def n_def b_def Let_def)
  qed
qed

text \<open>The bounds (1, 3) on five candidates keep the second and the third.\<close>

theorem C3_bounds_as_slice_witness:
  "apply_bounds ex_world [Some 1, Some 3] [''r0'', ''r1'', ''r2'', ''r3'', ''r4'']
     = (Inr [''r1'', ''r2''], ex_world)"
  using C3_bounds_as_slice [of "Some 1" "Some 3" ex_world "[''r0'', ''r1'', ''r2'', ''r3'', ''r4'']"]
  by (simp add: py_slice_def slice_index_def)

text \<open>
  With the bounds (-1, 3) the two passes keep the last record of the first three,
  while the slice \<^verbatim>\<open>[-1:3]\<close> of the five is empty.
\<close>

theorem C3_negative_lower_bound_counterexample:
  "apply_bounds ex_world [Some (- 1), Some 3] [''r0'', ''r1'', ''r2'', ''r3'', ''r4'']
     = (Inr [''r2''], ex_world)
   \<and> py_slice [''r0'', ''r1'', ''r2'', ''r3'', ''r4''] (Some (- 1)) (Some 3) = []"
  by (simp add: apply_bounds_def py_getitem_def py_slice_def py_slice_to_def
      py_slice_from_def slice_index_def)

section \<open>The retention map of a new survey\<close>

lemma Survey_init_ex:
  "Survey_init ex_world ''s.h5''
     = (Inr \<lparr>survey_f = None, datafile = ''s.h5'',
             retain = [''line_0'' \<mapsto> [''line_0'' \<mapsto> True, ''line_1'' \<mapsto> True],
                       ''line_1'' \<mapsto> [''line_0'' \<mapsto> True, ''line_1'' \<mapsto> True]]\<rparr>,
        ex_world\<lparr>opened := [(''s.h5'', False)]\<rparr>)"
  by (simp add: Survey_init_def isfile_def ex_world_def h5py_File_r_def ex_store_def
      h5_getitem_def av_set_def av_view_def)

text \<open>
  C5, on the small store. \<^verbatim>\<open>Survey("s.h5")\<close> succeeds; in its retention map the pair
  (\<^verbatim>\<open>line_0\<close>, \<^verbatim>\<open>location_0\<close>) of a line and one of its locations is absent, and the
  pair (\<^verbatim>\<open>line_0\<close>, \<^verbatim>\<open>line_1\<close>) of two top-level names is present with value true.
\<close>

theorem C5_retain_pairs_top_level_names:
  "(case Survey_init ex_world ''s.h5'' of
      (Inr S, w) \<Rightarrow>
        retained (retain S) ''line_0'' ''location_0'' = None
        \<and> retained (retain S) ''line_0'' ''line_1'' = Some True
    | (Inl e, w) \<Rightarrow> False)"
  by (simp add: Survey_init_ex retained_def)

section \<open>Writing the retained part\<close>

lemma Survey_init_f_None:
  assumes "Survey_init w path = (Inr S, w')"
  shows "survey_f S = None"
  using assms by (auto simp add: Survey_init_def split: if_splits prod.splits sum.splits)

lemma WriteHDF5_f_None:
  assumes "survey_f S = None" and "files w fnm \<noteq> Some Directory" and "overwrite \<or> files w fnm = None"
  shows "WriteHDF5 w S fnm overwrite
           = (Inl TypeError,
              w\<lparr>opened := opened w @ [(fnm, True)], files := (files w)(fnm \<mapsto> HDF5 [])\<rparr>, S)"
  using assms
  by (auto simp add: WriteHDF5_def exists_path_def h5py_File_w_def Let_def
      split: option.splits fs_entry.splits)

text \<open>
  C6, on the small store. With the survey that \<^verbatim>\<open>Survey("s.h5")\<close> returns,
  \<^verbatim>\<open>WriteHDF5("out.h5", overwrite=True)\<close> raises \<^verbatim>\<open>TypeError\<close> and leaves an empty
  store at the destination; no line group is written.
\<close>

theorem C6_WriteHDF5_raises_TypeError:
  "(case Survey_init ex_world ''s.h5'' of
      (Inr S, w) \<Rightarrow>
        (case WriteHDF5 w S ''out.h5'' True of
           (res, w', S') \<Rightarrow> res = Inl TypeError \<and> files w' ''out.h5'' = Some (HDF5 []))
    | (Inl e, w) \<Rightarrow> False)"
  unfolding Survey_init_ex
  by (simp add: WriteHDF5_def exists_path_def h5py_File_w_def ex_world_def)

section \<open>Which records are kept, and in which order\<close>

lemma filterM_eq:
  assumes "filterM p xs = Inr ys"
  shows "ys = filter (\<lambda>x. p x = Inr True) xs"
  using assms by (induction xs arbitrary: ys) (auto split: sum.splits if_splits)

lemma keeps_True_iff:
  "keeps lg path allowed name = Inr True \<longleftrightarrow>
     (\<exists>v parent. h5_getitem lg name = Inr (Dataset v)
        \<and> \<not> contains ''picked'' (ds_name path name)
        \<and> py_getitem (split_chr (CHR ''/'') name) (- 2) = Inr parent
        \<and> parent \<in> set allowed)"
  by (auto simp add: keeps_def is_Dataset_def split: sum.splits h5node.splits)

lemma mapM_keys:
  assumes "mapM k xs = Inr ks"
  shows "ks = map (\<lambda>x. projr (k x)) xs" and "\<forall>x\<in>set xs. k x = Inr (projr (k x))"
  using assms by (induction xs arbitrary: ks) (auto split: sum.splits)

lemma insort_key_decorated:
  assumes "\<forall>z\<in>set zs. fst z = f (snd z)"
  shows "map snd (insort_key fst (f x, x) zs) = insort_key f x (map snd zs)"
  using assms by (induction zs) auto

lemma sort_key_decorated:
  "map snd (sort_key fst (map (\<lambda>x. (f x, x)) xs)) = sort_key f xs"
proof (induction xs)
  case Nil
  then show ?case by simp
next
  case (Cons x xs)
  have "\<forall>z\<in>set (sort_key fst (map (\<lambda>x. (f x, x)) xs)). fst z = f (snd z)"
    by auto
  then show ?case
    using Cons by (simp add: insort_key_decorated)
qed

text \<open>Sorting by a key that never raises is the stable sort by that key.\<close>

lemma sort_by_key_eq:
  assumes "sort_by_key k xs = Inr ys"
  shows "ys = sort_key (\<lambda>x. projr (k x)) xs" and "\<forall>x\<in>set xs. k x = Inr (projr (k x))"
proof -
  from assms obtain ks where ks: "mapM k xs = Inr ks"
    and ys: "ys = map snd (sort_key fst (zip ks xs))"
    by (auto simp add: sort_by_key_def split: sum.splits)
  from mapM_keys [OF ks] have "zip ks xs = map (\<lambda>x. (projr (k x), x)) xs"
    by (simp add: zip_map1 zip_same_conv_map)
  with ys show "ys = sort_key (\<lambda>x. projr (k x)) xs"
    by (simp add: sort_key_decorated)
  from mapM_keys(2) [OF ks] show "\<forall>x\<in>set xs. k x = Inr (projr (k x))" .
qed




text \<open>Every kept record is a dataset of the line group.\<close>

lemma apply_bounds_subset:
  assumes "fst (apply_bounds w bounds xs) = Inr ys"
  shows "set ys \<subseteq> set xs"
  using assms
  by (auto simp add: apply_bounds_def Let_def py_slice_to_def py_slice_from_def
      split: sum.splits option.splits dest: in_set_takeD in_set_dropD)

lemma select_datasets_Dataset:
  assumes "fst (select_datasets w lg path bounds datacapture) = Inr datasets"
  shows "\<forall>d\<in>set datasets. \<exists>v. h5_getitem lg d = Inr (Dataset v)"
proof -
  from assms obtain fs ss w1
    where fs: "filterM (keeps lg path (allowed_datacaptures datacapture)) (visit lg) = Inr fs"
      and ss: "sort_by_key location_key fs = Inr ss"
      and ab: "fst (apply_bounds w1 bounds ss) = Inr datasets"
    by (auto simp add: select_datasets_def Let_def split: sum.splits prod.splits)
  from sort_by_key_eq(1) [OF ss] have "set ss = set fs"
    by simp
  with apply_bounds_subset [OF ab] have "set datasets \<subseteq> set fs"
    by simp
  moreover from filterM_eq [OF fs]
  have "\<forall>d\<in>set fs. keeps lg path (allowed_datacaptures datacapture) d = Inr True"
    by simp
  ultimately show ?thesis
    by (auto simp add: keeps_True_iff)
qed

lemma datasets_vectors:
  assumes "\<forall>d\<in>set ds. \<exists>v. h5_getitem lg d = Inr (Dataset v)"
  shows "\<exists>vs. map (h5_getitem lg) ds = map (\<lambda>v. Inr (Dataset v)) vs"
  using assms
proof (induction ds)
  case Nil
  then show ?case by simp
next
  case (Cons d ds)
  then obtain v vs where "h5_getitem lg d = Inr (Dataset v)"
    and "map (h5_getitem lg) ds = map (\<lambda>v. Inr (Dataset v)) vs"
    by auto
  then have "map (h5_getitem lg) (d # ds) = map (\<lambda>v. Inr (Dataset v)) (v # vs)"
    by simp
  then show ?case by blast
qed

text \<open>What a selection returns does not depend on the world it runs in.\<close>

lemma select_datasets_any_world:
  "fst (select_datasets w lg path bounds datacapture)
     = fst (select_datasets w' lg path bounds datacapture)"
  by (simp add: select_datasets_def apply_bounds_def Let_def split: sum.splits)

lemma grab_metadata_any_world:
  "fst (grab_metadata ops lg path md w ds) = fst (grab_metadata ops lg path md w' ds)"
proof (induction ds arbitrary: md w w')
  case Nil
  then show ?case by simp
next
  case (Cons d ds)
  show ?case
    by (simp add: Let_def Cons.IH [of _ "write_stderr _ w" "write_stderr _ w'"] Cons.IH [of _ w w']
        split: sum.splits prod.splits add_outcome.splits)
qed

section \<open>The array of a line\<close>

lemma mapM_Inr_map:
  assumes "map f xs = map Inr ys"
  shows "mapM f xs = Inr ys"
  using assms by (induction xs arbitrary: ys) auto

lemma mapM_Inr_D:
  assumes "mapM f xs = Inr ys"
  shows "map f xs = map Inr ys"
  using assms by (induction xs arbitrary: ys) (auto split: sum.splits)

lemma py_max_Max:
  assumes "ns \<noteq> []"
  shows "py_max ns = Inr (Max (set ns))"
proof (cases ns)
  case Nil
  with assms show ?thesis by simp
next
  case (Cons n rest)
  have "Max (set (n # rest)) = fold max rest n"
    by (rule Max.set_eq_fold)
  with Cons show ?thesis by (simp add: py_max_def)
qed

text \<open>
  The loop over the rows, started at row \<^verbatim>\<open>j\<close> with the sample vectors \<^verbatim>\<open>vs\<close> still
  to be copied: the rows before \<^verbatim>\<open>j\<close> stay, each later row gets its vector in front
  and keeps its tail.
\<close>

lemma fill_rows_eq:
  assumes "map (read_samples flt lg) rest = map Inr vs"
    and "\<forall>i<length vs. nsamples ! (j + i) = length (vs ! i)"
    and "\<forall>v\<in>set vs. length v \<le> snd (shape arr)"
    and "fst (shape arr) = length (rows arr)"
    and "j + length vs = length (rows arr)"
  shows "fill_rows flt lg nsamples arr j rest
           = Inr (arr\<lparr>rows := take j (rows arr)
                            @ map2 (\<lambda>v r. v @ drop (length v) r) vs (drop j (rows arr))\<rparr>)"
  using assms
proof (induction rest arbitrary: vs arr j)
  case Nil
  then show ?case by simp
next
  case (Cons d rest)
  then obtain v vs' where vs: "vs = v # vs'" by (cases vs) auto
  from Cons.prems vs have rd: "read_samples flt lg d = Inr v"
    and rest: "map (read_samples flt lg) rest = map Inr vs'" by auto
  from Cons.prems(2) vs have nj: "nsamples ! j = length v" by force
  from Cons.prems(2) vs have nrest: "\<forall>i<length vs'. nsamples ! (Suc j + i) = length (vs' ! i)"
    by force
  from Cons.prems vs have j: "j < length (rows arr)" and vm: "length v \<le> snd (shape arr)"
    by auto
  define arr1 where "arr1 = arr\<lparr>rows := (rows arr)[j := v @ drop (length v) (rows arr ! j)]\<rparr>"
  have step: "set_row_prefix arr j (nsamples ! j) v = Inr arr1"
    using j vm nj Cons.prems(4) by (simp add: set_row_prefix_def arr1_def min_def)
  have "fill_rows flt lg nsamples arr1 (Suc j) rest
          = Inr (arr1\<lparr>rows := take (Suc j) (rows arr1)
                            @ map2 (\<lambda>v r. v @ drop (length v) r) vs' (drop (Suc j) (rows arr1))\<rparr>)"
    using rest nrest Cons.prems vs by (intro Cons.IH) (auto simp add: arr1_def)
  moreover have "take (Suc j) (rows arr1) = take j (rows arr) @ [v @ drop (length v) (rows arr ! j)]"
    using j by (simp add: arr1_def take_Suc_conv_app_nth)
  moreover have "drop (Suc j) (rows arr1) = drop (Suc j) (rows arr)"
    by (simp add: arr1_def)
  moreover have "drop j (rows arr) = rows arr ! j # drop (Suc j) (rows arr)"
    using j by (simp add: Cons_nth_drop_Suc)
  ultimately show ?case
    using rd step vs by (simp add: arr1_def)
qed

text \<open>
  The array before it is transposed: one row per record, as long as the longest
  record, each record in front of its row and zeros behind it.
\<close>

lemma build_array_eq:
  assumes "datasets \<noteq> []"
    and "map (h5_getitem lg) datasets = map (\<lambda>v. Inr (Dataset v)) vs"
    and "\<forall>d\<in>set datasets. flt d ReadShape = None \<and> flt d ReadSamples = None"
  shows "mapM (sample_count flt lg) datasets = Inr (map length vs)"
    and "build_array flt lg (map length vs) datasets
           = Inr \<lparr>shape = (length vs, Max (length ` set vs)),
                  rows = map (\<lambda>v. v @ replicate (Max (length ` set vs) - length v) 0) vs\<rparr>"
proof -
  from assms(2) have len: "length datasets = length vs"
    by (metis length_map)
  with assms(1) have ne: "vs \<noteq> []" by auto
  have at: "h5_getitem lg (datasets ! i) = Inr (Dataset (vs ! i))" if "i < length vs" for i
    using that len assms(2) by (metis nth_map)
  have "map (sample_count flt lg) datasets = map Inr (map length vs)"
    using len at assms(3) by (auto simp add: list_eq_iff_nth_eq sample_count_def)
  then show "mapM (sample_count flt lg) datasets = Inr (map length vs)"
    by (rule mapM_Inr_map)
  have rd: "map (read_samples flt lg) datasets = map Inr vs"
    using len at assms(3) by (auto simp add: list_eq_iff_nth_eq read_samples_def)
  define m where "m = Max (length ` set vs)"
  have mx: "py_max (map length vs) = Inr m"
    using ne by (simp add: py_max_Max m_def)
  have le: "\<forall>v\<in>set vs. length v \<le> m"
    by (simp add: m_def)
  have "fill_rows flt lg (map length vs) (np_zeros (length datasets, m)) 0 datasets
          = Inr ((np_zeros (length datasets, m))\<lparr>rows := take 0 (rows (np_zeros (length datasets, m)))
                   @ map2 (\<lambda>v r. v @ drop (length v) r) vs
                       (drop 0 (rows (np_zeros (length datasets, m))))\<rparr>)"
    using rd le len by (intro fill_rows_eq) (auto simp add: np_zeros_def)
  moreover have "map2 (\<lambda>v r. v @ drop (length v) r) vs (replicate (length vs) (replicate m 0))
                   = map (\<lambda>v. v @ replicate (m - length v) (0::real)) vs"
    by (auto simp add: list_eq_iff_nth_eq)
  ultimately show "build_array flt lg (map length vs) datasets
           = Inr \<lparr>shape = (length vs, Max (length ` set vs)),
                  rows = map (\<lambda>v. v @ replicate (Max (length ` set vs) - length v) 0) vs\<rparr>"
    using mx len by (simp add: build_array_def np_zeros_def m_def)
qed

lemma transpose_padded:
  "transpose_nd \<lparr>shape = (length vs, m), rows = map (\<lambda>v. v @ replicate (m - length v) 0) vs\<rparr>
     = \<lparr>shape = (m, length vs),
        rows = map (\<lambda>i. map (\<lambda>v. if i < length v then v ! i else 0) vs) [0..<m]\<rparr>"
  by (auto simp add: transpose_nd_def nth_append)

text \<open>A list comprehension stops at the first element that raises.\<close>

lemma mapM_first_Inl:
  assumes "i < length xs" and "\<forall>j<i. \<exists>y. f (xs ! j) = Inr y" and "f (xs ! i) = Inl e"
  shows "mapM f xs = Inl e"
  using assms
proof (induction xs arbitrary: i)
  case Nil
  then show ?case by simp
next
  case (Cons x xs)
  show ?case
  proof (cases i)
    case 0
    with Cons.prems show ?thesis by simp
  next
    case (Suc k)
    with Cons.prems(2) obtain y where y: "f x = Inr y"
      by force
    from Cons.prems Suc have "\<forall>j<k. \<exists>y. f (xs ! j) = Inr y"
      by (metis Suc_less_eq nth_Cons_Suc)
    with Cons.prems Suc have "mapM f xs = Inl e"
      by (intro Cons.IH [of k]) simp_all
    with y show ?thesis by simp
  qed
qed

text \<open>
  The loop over the rows stops at the first record whose samples cannot be read, with
  the exception of that read.
\<close>

lemma fill_rows_first_fault:
  assumes "i < length rest"
    and "\<forall>k<i. \<exists>v. read_samples flt lg (rest ! k) = Inr v
                  \<and> nsamples ! (j + k) = length v \<and> length v \<le> snd (shape arr)"
    and "read_samples flt lg (rest ! i) = Inl e"
    and "fst (shape arr) = length (rows arr)"
    and "j + length rest \<le> length (rows arr)"
  shows "fill_rows flt lg nsamples arr j rest = Inl e"
  using assms
proof (induction rest arbitrary: i arr j)
  case Nil
  then show ?case by simp
next
  case (Cons d rest)
  show ?case
  proof (cases i)
    case 0
    with Cons.prems show ?thesis by simp
  next
    case (Suc k)
    with Cons.prems(2) obtain v where rd: "read_samples flt lg d = Inr v"
      and nj: "nsamples ! j = length v" and vm: "length v \<le> snd (shape arr)"
      by force
    define arr1 where "arr1 = arr\<lparr>rows := (rows arr)[j := v @ drop (length v) (rows arr ! j)]\<rparr>"
    from Cons.prems(5) have j: "j < length (rows arr)"
      by simp
    have step: "set_row_prefix arr j (nsamples ! j) v = Inr arr1"
      using j vm nj Cons.prems(4) by (simp add: set_row_prefix_def arr1_def min_def)
    from Cons.prems(1) Suc have "k < length rest" by simp
    moreover have "\<forall>k'<k. \<exists>v. read_samples flt lg (rest ! k') = Inr v
                  \<and> nsamples ! (Suc j + k') = length v \<and> length v \<le> snd (shape arr1)"
    proof (intro allI impI)
      fix k' assume "k' < k"
      with Suc have "Suc k' < i" by simp
      with Cons.prems(2) show "\<exists>v. read_samples flt lg (rest ! k') = Inr v
                  \<and> nsamples ! (Suc j + k') = length v \<and> length v \<le> snd (shape arr1)"
        by (force simp add: arr1_def)
    qed
    moreover from Cons.prems(3) Suc have "read_samples flt lg (rest ! k) = Inl e" by simp
    moreover from Cons.prems(4) have "fst (shape arr1) = length (rows arr1)"
      by (simp add: arr1_def)
    moreover from Cons.prems(5) have "Suc j + length rest \<le> length (rows arr1)"
      by (simp add: arr1_def)
    ultimately have "fill_rows flt lg nsamples arr1 (Suc j) rest = Inl e"
      by (rule Cons.IH)
    with rd step show ?thesis by simp
  qed
qed

text \<open>When the loop over the rows ends, every record was read.\<close>

lemma fill_rows_reads:
  assumes "fill_rows flt lg nsamples arr j rest = Inr arr'"
  shows "\<forall>d\<in>set rest. \<exists>v. read_samples flt lg d = Inr v"
  using assms
  by (induction rest arbitrary: arr j) (auto split: sum.splits)

section \<open>What \<^verbatim>\<open>ExtractLine\<close> returns\<close>

lemma sample_counts_D:
  assumes "mapM (sample_count flt lg) datasets = Inr nsamples"
  shows "\<exists>vs. map (h5_getitem lg) datasets = map (\<lambda>v. Inr (Dataset v)) vs
              \<and> nsamples = map length vs"
    and "\<forall>d\<in>set datasets. flt d ReadShape = None"
  using assms
proof (induction datasets arbitrary: nsamples)
  case Nil
  {
    case 1
    then show ?case by simp
  next
    case 2
    then show ?case by simp
  }
next
  case (Cons d datasets)
  {
    case 1
    from 1 obtain n ns where n: "sample_count flt lg d = Inr n"
      and ns: "mapM (sample_count flt lg) datasets = Inr ns" and nsamples: "nsamples = n # ns"
      by (auto split: sum.splits)
    from n obtain v where v: "h5_getitem lg d = Inr (Dataset v)" "n = length v"
      by (auto simp add: sample_count_def split: sum.splits h5node.splits option.splits)
    from Cons.IH(1) [OF ns] obtain vs
      where vs: "map (h5_getitem lg) datasets = map (\<lambda>v. Inr (Dataset v)) vs" "ns = map length vs"
      by blast
    from v vs nsamples
    have "map (h5_getitem lg) (d # datasets) = map (\<lambda>v. Inr (Dataset v)) (v # vs)
        \<and> nsamples = map length (v # vs)"
      by simp
    then show ?case by blast
  next
    case 2
    from 2 obtain n ns where n: "sample_count flt lg d = Inr n"
      and ns: "mapM (sample_count flt lg) datasets = Inr ns"
      by (auto split: sum.splits)
    from n have "flt d ReadShape = None"
      by (auto simp add: sample_count_def split: sum.splits h5node.splits option.splits)
    with Cons.IH(2) [OF ns] show ?case by simp
  }
qed

lemma build_array_nonempty:
  assumes "build_array flt lg nsamples datasets = Inr arr"
    and "mapM (sample_count flt lg) datasets = Inr nsamples"
  shows "datasets \<noteq> []"
  using assms by (auto simp add: build_array_def py_max_def)

lemma build_array_reads:
  assumes "build_array flt lg nsamples datasets = Inr arr"
  shows "\<forall>d\<in>set datasets. flt d ReadSamples = None"
proof
  fix d assume "d \<in> set datasets"
  moreover from assms obtain m where
    "fill_rows flt lg nsamples (np_zeros (length datasets, m)) 0 datasets = Inr arr"
    by (auto simp add: build_array_def split: sum.splits)
  ultimately obtain v where "read_samples flt lg d = Inr v"
    using fill_rows_reads by blast
  then show "flt d ReadSamples = None"
    by (auto simp add: read_samples_def split: sum.splits h5node.splits option.splits)
qed

text \<open>Every gather that \<^verbatim>\<open>ExtractLine\<close> returns went through all the stages.\<close>

lemma ExtractLine_Some_D:
  assumes "fst (ExtractLine ops w S line bounds dc) = Inr (Some g)"
  shows "\<exists>rt w1 ms datasets w2 nsamples arr.
           h5py_File_r w (datafile S) = (Inr rt, w1)
           \<and> h5_getitem (Group rt) (line_path line) = Inr (Group ms)
           \<and> select_datasets w1 (Group ms) (line_path line) bounds dc = (Inr datasets, w2)
           \<and> mapM (sample_count (faults_in w (datafile S) (line_path line)) (Group ms)) datasets
               = Inr nsamples
           \<and> build_array (faults_in w (datafile S) (line_path line)) (Group ms) nsamples datasets
               = Inr arr
           \<and> g_data g = transpose_nd arr"
  using assms
  by (auto simp add: ExtractLine_def Let_def
      split: prod.splits sum.splits h5node.splits if_splits)

text \<open>
  Once the store is open, the line group found, the records selected and the metadata
  loop through, the result depends on the reads alone.
\<close>

lemma ExtractLine_after_metadata:
  assumes "h5py_File_r w (datafile S) = (Inr rt, w1)"
    and "h5_getitem (Group rt) (line_path line) = Inr (Group ms)"
    and "fst (select_datasets w1 (Group ms) (line_path line) bounds dc) = Inr datasets"
    and "fst (grab_metadata ops (Group ms) (line_path line) (RecordList ops (datafile S))
               (snd (select_datasets w1 (Group ms) (line_path line) bounds dc)) datasets)
           = Inr metadata"
  shows "fst (ExtractLine ops w S line bounds dc)
           = (case mapM (sample_count (faults_in w (datafile S) (line_path line)) (Group ms))
                     datasets of
                Inl e \<Rightarrow> Inl e
              | Inr nsamples \<Rightarrow>
                  (case build_array (faults_in w (datafile S) (line_path line)) (Group ms)
                          nsamples datasets of
                     Inl e \<Rightarrow> if e = ValueError then Inr None else Inl e
                   | Inr arr \<Rightarrow>
                       Inr (Some \<lparr>g_data = transpose_nd arr, g_infile = datafile S,
                                  g_line = line, g_metadata = metadata,
                                  g_retain = fst (av_view (retain S) (line_path line)),
                                  g_dc = dc\<rparr>)))"
proof -
  obtain w2 where sel: "select_datasets w1 (Group ms) (line_path line) bounds dc = (Inr datasets, w2)"
    using assms(3) by (cases "select_datasets w1 (Group ms) (line_path line) bounds dc") simp
  obtain w3 where md: "grab_metadata ops (Group ms) (line_path line) (RecordList ops (datafile S))
      w2 datasets = (Inr metadata, w3)"
    using assms(4) sel
    by (cases "grab_metadata ops (Group ms) (line_path line) (RecordList ops (datafile S))
          w2 datasets") simp
  from assms(1) assms(2) sel md show ?thesis
    by (simp add: ExtractLine_def split: prod.splits sum.splits)
qed

text \<open>
  The array of a line whose records are all read. Let \<^verbatim>\<open>ExtractLine\<close> open the store,
  find the line group, keep the non-empty list \<^verbatim>\<open>datasets\<close> and get through the metadata
  loop, let no read of a kept record fail, and let \<^verbatim>\<open>vs\<close> be the sample vectors of the
  kept records, in order. Then the array built has one row per record and as many columns
  as the longest record has samples, each row is the record followed by zeros, and the
  gather returned holds the transposed array: its first axis is the sample index, its
  second the record index.
\<close>

lemma ExtractLine_padded_transposed_array:
  assumes "h5py_File_r w (datafile S) = (Inr rt, w1)"
    and "h5_getitem (Group rt) (line_path line) = Inr (Group ms)"
    and "fst (select_datasets w1 (Group ms) (line_path line) bounds dc) = Inr datasets"
    and "datasets \<noteq> []"
    and "fst (grab_metadata ops (Group ms) (line_path line) (RecordList ops (datafile S))
               (snd (select_datasets w1 (Group ms) (line_path line) bounds dc)) datasets)
           = Inr metadata"
    and "map (h5_getitem (Group ms)) datasets = map (\<lambda>v. Inr (Dataset v)) vs"
    and "\<forall>d\<in>set datasets. faults_in w (datafile S) (line_path line) d ReadShape = None
            \<and> faults_in w (datafile S) (line_path line) d ReadSamples = None"
  shows "\<exists>arr g.
           build_array (faults_in w (datafile S) (line_path line)) (Group ms) (map length vs) datasets
             = Inr arr
           \<and> shape arr = (length datasets, Max (length ` set vs))
           \<and> rows arr = map (\<lambda>v. v @ replicate (Max (length ` set vs) - length v) 0) vs
           \<and> fst (ExtractLine ops w S line bounds dc) = Inr (Some g)
           \<and> g_data g = transpose_nd arr
           \<and> shape (g_data g) = (Max (length ` set vs), length datasets)
           \<and> rows (g_data g)
               = map (\<lambda>i. map (\<lambda>v. if i < length v then v ! i else 0) vs)
                   [0..<Max (length ` set vs)]"
proof -
  define m where "m = Max (length ` set vs)"
  define arr where
    "arr = \<lparr>shape = (length vs, m), rows = map (\<lambda>v. v @ replicate (m - length v) 0) vs\<rparr>"
  from assms(6) have len: "length datasets = length vs"
    by (metis length_map)
  have ns: "mapM (sample_count (faults_in w (datafile S) (line_path line)) (Group ms)) datasets
      = Inr (map length vs)"
    and ba: "build_array (faults_in w (datafile S) (line_path line)) (Group ms) (map length vs)
      datasets = Inr arr"
    using build_array_eq [OF assms(4) assms(6) assms(7)] by (simp_all add: arr_def m_def)
  have tr: "transpose_nd arr
      = \<lparr>shape = (m, length vs),
         rows = map (\<lambda>i. map (\<lambda>v. if i < length v then v ! i else 0) vs) [0..<m]\<rparr>"
    unfolding arr_def by (rule transpose_padded)
  define g where
    "g = \<lparr>g_data = transpose_nd arr, g_infile = datafile S, g_line = line,
          g_metadata = metadata, g_retain = fst (av_view (retain S) (line_path line)), g_dc = dc\<rparr>"
  have "fst (ExtractLine ops w S line bounds dc) = Inr (Some g)"
    using ExtractLine_after_metadata [OF assms(1) assms(2) assms(3) assms(5)] ns ba
    by (simp add: g_def)
  moreover have "g_data g = transpose_nd arr"
    by (simp add: g_def)
  ultimately show ?thesis
    using ba tr len by (intro exI [of _ arr] exI [of _ g]) (simp add: arr_def m_def)
qed

subsection \<open>Runs on the small store\<close>

lemma py_str_0: "py_str 0 = ''0''"
  by (simp add: py_str_def str_nat.simps digit_chr_def digits_def)

lemma line_path_0: "line_path 0 = ''line_0''"
  by (simp add: line_path_def py_str_0)

lemma ex_open:
  assumes "files w ''s.h5'' = Some (HDF5 rt)"
  shows "h5py_File_r w (datafile ex_survey) = (Inr rt, w\<lparr>opened := opened w @ [(''s.h5'', False)]\<rparr>)"
  using assms by (simp add: h5py_File_r_def ex_survey_def)

lemma ex_line_0: "h5_getitem (Group ex_store) (line_path 0) = Inr (Group ex_line0)"
  by (simp add: line_path_0 h5_getitem_def ex_store_def)

lemma ex_select_0:
  "fst (select_datasets w (Group ex_line0) (line_path 0) [None, None] (Single 0))
     = Inr [''location_0/datacapture_0/echogram_0'', ''location_2/datacapture_0/echogram_0'',
            ''location_10/datacapture_0/echogram_0'']"
proof -
  have "fst (select_datasets ex_world (Group ex_line0) ''line_0'' [None, None] (Single 0))
     = Inr [''location_0/datacapture_0/echogram_0'', ''location_2/datacapture_0/echogram_0'',
            ''location_10/datacapture_0/echogram_0'']"
    by code_simp
  then show ?thesis
    unfolding line_path_0 by (subst select_datasets_any_world [where w' = ex_world])
qed

lemma ex_metadata_0:
  "fst (grab_metadata ex_ops (Group ex_line0) (line_path 0) (RecordList ex_ops (datafile ex_survey)) w
          [''location_0/datacapture_0/echogram_0'', ''location_2/datacapture_0/echogram_0'',
           ''location_10/datacapture_0/echogram_0''])
     = Inr [''0000000000000000'', ''0000000200000000'', ''0000001000000000'']"
proof -
  have "fst (grab_metadata ex_ops (Group ex_line0) ''line_0'' (RecordList ex_ops (datafile ex_survey))
          ex_world
          [''location_0/datacapture_0/echogram_0'', ''location_2/datacapture_0/echogram_0'',
           ''location_10/datacapture_0/echogram_0''])
     = Inr [''0000000000000000'', ''0000000200000000'', ''0000001000000000'']"
    by code_simp
  then show ?thesis
    unfolding line_path_0 by (subst grab_metadata_any_world [where w' = ex_world])
qed

lemma ex_vectors_0:
  "map (h5_getitem (Group ex_line0))
     [''location_0/datacapture_0/echogram_0'', ''location_2/datacapture_0/echogram_0'',
      ''location_10/datacapture_0/echogram_0'']
   = map (\<lambda>v. Inr (Dataset v)) [[1, 2, 3, 4, 5], [1, 2, 3], [1, 2, 3, 4, 5, 6, 7]]"
  by (simp add: ex_line0_def h5_getitem_def ex_location_def)

text \<open>
  Line 0 and channel 0 without faults: the records have 5, 3 and 7 samples in the order
  of their locations 0, 2 and 10; the array returned has 7 rows and 3 columns, and the
  first two columns end in zeros.
\<close>

lemma ExtractLine_example_array:
  "\<exists>g. fst (ExtractLine ex_ops ex_world ex_survey 0 [None, None] (Single 0)) = Inr (Some g)
       \<and> shape (g_data g) = (7, 3)
       \<and> rows (g_data g)
           = [[1, 1, 1], [2, 2, 2], [3, 3, 3], [4, 0, 4], [5, 0, 5], [0, 0, 6], [0, 0, 7]]"
proof -
  define datasets where
    "datasets = [''location_0/datacapture_0/echogram_0'', ''location_2/datacapture_0/echogram_0'',
                 ''location_10/datacapture_0/echogram_0'']"
  define vs :: "real list list" where "vs = [[1, 2, 3, 4, 5], [1, 2, 3], [1, 2, 3, 4, 5, 6, 7]]"
  have f: "files ex_world ''s.h5'' = Some (HDF5 ex_store)"
    by (simp add: ex_world_def)
  have nf: "\<forall>d\<in>set datasets. faults_in ex_world (datafile ex_survey) (line_path 0) d ReadShape = None
            \<and> faults_in ex_world (datafile ex_survey) (line_path 0) d ReadSamples = None"
    by (simp add: faults_in_def ex_world_def)
  have ne: "datasets \<noteq> []"
    by (simp add: datasets_def)
  have m: "Max (length ` set vs) = 7"
    by (simp add: vs_def)
  have up: "[0..<7] = [0, 1, 2, 3, 4, 5, 6]"
    by (simp add: upt_rec)
  from ExtractLine_padded_transposed_array [OF ex_open [OF f] ex_line_0
      ex_select_0 [folded datasets_def] ne ex_metadata_0 [folded datasets_def]
      ex_vectors_0 [folded datasets_def vs_def] nf]
  show ?thesis
    unfolding m by (auto simp add: datasets_def vs_def up)
qed

subsection \<open>A record whose path has a component without index\<close>

text \<open>
  C1, on the store with the bare leaf name. In line 0, channel 0, two records are kept,
  of 2 and 3 samples, and the second one is the leaf \<^verbatim>\<open>echogram\<close>. \<^verbatim>\<open>HDFpath2fid\<close> raises
  \<^verbatim>\<open>IndexError\<close> for its path in the metadata loop, the handlers there catch the parse
  error and \<^verbatim>\<open>ValueError\<close> only, and \<^verbatim>\<open>ExtractLine\<close> raises \<^verbatim>\<open>IndexError\<close>: no array is
  built for the two records.
\<close>

theorem C1_bare_leaf_name_IndexError:
  "h5_getitem (Group ex_bare_store) (line_path 0) = Inr (Group ex_bare_line0)
   \<and> fst (select_datasets ex_bare_world (Group ex_bare_line0) (line_path 0) [None, None] (Single 0))
       = Inr [''location_0/datacapture_0/echogram_0'', ''location_1/datacapture_0/echogram'']
   \<and> HDFpath2fid (line_path 0 @ ''/'' @ ''location_1/datacapture_0/echogram'') = Inl IndexError
   \<and> fst (ExtractLine ex_ops ex_bare_world ex_survey 0 [None, None] (Single 0)) = Inl IndexError"
proof -
  have "h5_getitem (Group ex_bare_store) (line_path 0) = Inr (Group ex_bare_line0)"
    by (simp add: line_path_0 h5_getitem_def ex_bare_store_def)
  moreover
  have "fst (select_datasets ex_bare_world (Group ex_bare_line0) ''line_0'' [None, None] (Single 0))
       = Inr [''location_0/datacapture_0/echogram_0'', ''location_1/datacapture_0/echogram'']"
    by code_simp
  moreover
  have "HDFpath2fid (''line_0'' @ ''/'' @ ''location_1/datacapture_0/echogram'') = Inl IndexError"
    by code_simp
  moreover
  have "(case fst (ExtractLine ex_ops ex_bare_world ex_survey 0 [None, None] (Single 0)) of
           Inl e \<Rightarrow> e = IndexError | Inr r \<Rightarrow> False)"
    by code_simp
  then have "fst (ExtractLine ex_ops ex_bare_world ex_survey 0 [None, None] (Single 0))
      = Inl IndexError"
    by (auto split: sum.splits)
  ultimately show ?thesis
    by (simp add: line_path_0)
qed

subsection \<open>No records, and records that cannot be read\<close>

lemma sample_counts_eq:
  assumes "map (h5_getitem lg) datasets = map (\<lambda>v. Inr (Dataset v)) vs"
    and "\<forall>d\<in>set datasets. flt d ReadShape = None"
  shows "mapM (sample_count flt lg) datasets = Inr (map length vs)"
proof -
  from assms(1) have len: "length datasets = length vs"
    by (metis length_map)
  have at: "h5_getitem lg (datasets ! i) = Inr (Dataset (vs ! i))" if "i < length vs" for i
    using that len assms(1) by (metis nth_map)
  have "map (sample_count flt lg) datasets = map Inr (map length vs)"
    using len at assms(2) by (auto simp add: list_eq_iff_nth_eq sample_count_def)
  then show ?thesis
    by (rule mapM_Inr_map)
qed

text \<open>
  C2 (as amended). Write \<^verbatim>\<open>F\<close> for the faults of the datasets of the line.

  (1) When the list of kept records is empty, \<^verbatim>\<open>ExtractLine\<close> raises nothing: it writes
  the message about the line that could not be indexed to stderr and returns \<^verbatim>\<open>None\<close>.

  (2) When the metadata loop has completed and the first kept record whose sample count
  cannot be read is record \<^verbatim>\<open>i\<close>, that read raising \<^verbatim>\<open>e\<close>, then \<^verbatim>\<open>ExtractLine\<close> raises
  \<^verbatim>\<open>e\<close>, whatever exception it is.

  (3) When the metadata loop has completed, every sample count is read, and the first
  kept record whose samples cannot be read is record \<^verbatim>\<open>i\<close>, that read raising \<^verbatim>\<open>e\<close>,
  then \<^verbatim>\<open>ExtractLine\<close> raises \<^verbatim>\<open>e\<close>, unless \<^verbatim>\<open>e\<close> is \<^verbatim>\<open>ValueError\<close>: that one is caught,
  and the call returns \<^verbatim>\<open>None\<close>.

  (4) Whenever \<^verbatim>\<open>ExtractLine\<close> returns a gather, the list of kept records was not empty,
  no read of a kept record failed, and the array holds all of them: one column per kept
  record, every row of that length, as many rows as the longest record has samples,
  each record padded with zeros.
\<close>

theorem C2_no_records_failed_reads_never_ragged:
  "(h5py_File_r w (datafile S) = (Inr rt, w1)
      \<and> h5_getitem (Group rt) (line_path line) = Inr (Group ms)
      \<and> fst (select_datasets w1 (Group ms) (line_path line) bounds dc) = Inr []
    \<longrightarrow> fst (ExtractLine ops w S line bounds dc) = Inr None
        \<and> stderr (fst (snd (ExtractLine ops w S line bounds dc)))
            = stderr (snd (select_datasets w1 (Group ms) (line_path line) bounds dc))
              @ [FailedToIndex (line_path line)])
   \<and> (h5py_File_r w (datafile S) = (Inr rt, w1)
      \<and> h5_getitem (Group rt) (line_path line) = Inr (Group ms)
      \<and> fst (select_datasets w1 (Group ms) (line_path line) bounds dc) = Inr datasets
      \<and> fst (grab_metadata ops (Group ms) (line_path line) (RecordList ops (datafile S))
               (snd (select_datasets w1 (Group ms) (line_path line) bounds dc)) datasets)
           = Inr metadata
      \<and> i < length datasets
      \<and> (\<forall>j<i. faults_in w (datafile S) (line_path line) (datasets ! j) ReadShape = None)
      \<and> faults_in w (datafile S) (line_path line) (datasets ! i) ReadShape = Some e
    \<longrightarrow> fst (ExtractLine ops w S line bounds dc) = Inl e)
   \<and> (h5py_File_r w (datafile S) = (Inr rt, w1)
      \<and> h5_getitem (Group rt) (line_path line) = Inr (Group ms)
      \<and> fst (select_datasets w1 (Group ms) (line_path line) bounds dc) = Inr datasets
      \<and> fst (grab_metadata ops (Group ms) (line_path line) (RecordList ops (datafile S))
               (snd (select_datasets w1 (Group ms) (line_path line) bounds dc)) datasets)
           = Inr metadata
      \<and> (\<forall>d\<in>set datasets. faults_in w (datafile S) (line_path line) d ReadShape = None)
      \<and> i < length datasets
      \<and> (\<forall>j<i. faults_in w (datafile S) (line_path line) (datasets ! j) ReadSamples = None)
      \<and> faults_in w (datafile S) (line_path line) (datasets ! i) ReadSamples = Some e
    \<longrightarrow> fst (ExtractLine ops w S line bounds dc) = (if e = ValueError then Inr None else Inl e))
   \<and> (fst (ExtractLine ops w S line bounds dc) = Inr (Some g)
    \<longrightarrow> (\<exists>rt w1 ms datasets vs.
           h5py_File_r w (datafile S) = (Inr rt, w1)
           \<and> h5_getitem (Group rt) (line_path line) = Inr (Group ms)
           \<and> fst (select_datasets w1 (Group ms) (line_path line) bounds dc) = Inr datasets
           \<and> datasets \<noteq> []
           \<and> (\<forall>d\<in>set datasets.
                 faults_in w (datafile S) (line_path line) d ReadShape = None
                 \<and> faults_in w (datafile S) (line_path line) d ReadSamples = None)
           \<and> map (h5_getitem (Group ms)) datasets = map (\<lambda>v. Inr (Dataset v)) vs
           \<and> shape (g_data g) = (Max (length ` set vs), length datasets)
           \<and> length (rows (g_data g)) = Max (length ` set vs)
           \<and> (\<forall>r\<in>set (rows (g_data g)). length r = length datasets)
           \<and> rows (g_data g)
               = map (\<lambda>i. map (\<lambda>v. if i < length v then v ! i else 0) vs)
                   [0..<Max (length ` set vs)]))"
proof (intro conjI impI)
  assume a: "h5py_File_r w (datafile S) = (Inr rt, w1)
      \<and> h5_getitem (Group rt) (line_path line) = Inr (Group ms)
      \<and> fst (select_datasets w1 (Group ms) (line_path line) bounds dc) = Inr []"
  then obtain w2 where sel: "select_datasets w1 (Group ms) (line_path line) bounds dc = (Inr [], w2)"
    by (cases "select_datasets w1 (Group ms) (line_path line) bounds dc") simp
  from a sel show "fst (ExtractLine ops w S line bounds dc) = Inr None"
    by (simp add: ExtractLine_def build_array_def py_max_def)
  from a sel show "stderr (fst (snd (ExtractLine ops w S line bounds dc)))
            = stderr (snd (select_datasets w1 (Group ms) (line_path line) bounds dc))
              @ [FailedToIndex (line_path line)]"
    by (simp add: ExtractLine_def build_array_def py_max_def write_stderr_def)
next
  define F where "F = faults_in w (datafile S) (line_path line)"
  assume a: "h5py_File_r w (datafile S) = (Inr rt, w1)
      \<and> h5_getitem (Group rt) (line_path line) = Inr (Group ms)
      \<and> fst (select_datasets w1 (Group ms) (line_path line) bounds dc) = Inr datasets
      \<and> fst (grab_metadata ops (Group ms) (line_path line) (RecordList ops (datafile S))
               (snd (select_datasets w1 (Group ms) (line_path line) bounds dc)) datasets)
           = Inr metadata
      \<and> i < length datasets
      \<and> (\<forall>j<i. faults_in w (datafile S) (line_path line) (datasets ! j) ReadShape = None)
      \<and> faults_in w (datafile S) (line_path line) (datasets ! i) ReadShape = Some e"
  then have sel: "fst (select_datasets w1 (Group ms) (line_path line) bounds dc) = Inr datasets"
    and i: "i < length datasets"
    and before: "\<forall>j<i. F (datasets ! j) ReadShape = None"
    and at: "F (datasets ! i) ReadShape = Some e"
    by (simp_all add: F_def)
  have ds: "\<exists>v. h5_getitem (Group ms) (datasets ! k) = Inr (Dataset v)" if "k < length datasets" for k
    using select_datasets_Dataset [OF sel] that by simp
  have "\<forall>j<i. \<exists>y. sample_count F (Group ms) (datasets ! j) = Inr y"
  proof (intro allI impI)
    fix j assume j: "j < i"
    with i ds [of j] obtain v where "h5_getitem (Group ms) (datasets ! j) = Inr (Dataset v)"
      by auto
    with before j show "\<exists>y. sample_count F (Group ms) (datasets ! j) = Inr y"
      by (simp add: sample_count_def)
  qed
  moreover from ds [OF i] at have "sample_count F (Group ms) (datasets ! i) = Inl e"
    by (auto simp add: sample_count_def)
  ultimately have "mapM (sample_count F (Group ms)) datasets = Inl e"
    using i by (intro mapM_first_Inl) simp_all
  with a show "fst (ExtractLine ops w S line bounds dc) = Inl e"
    by (simp add: ExtractLine_after_metadata F_def)
next
  define F where "F = faults_in w (datafile S) (line_path line)"
  assume a: "h5py_File_r w (datafile S) = (Inr rt, w1)
      \<and> h5_getitem (Group rt) (line_path line) = Inr (Group ms)
      \<and> fst (select_datasets w1 (Group ms) (line_path line) bounds dc) = Inr datasets
      \<and> fst (grab_metadata ops (Group ms) (line_path line) (RecordList ops (datafile S))
               (snd (select_datasets w1 (Group ms) (line_path line) bounds dc)) datasets)
           = Inr metadata
      \<and> (\<forall>d\<in>set datasets. faults_in w (datafile S) (line_path line) d ReadShape = None)
      \<and> i < length datasets
      \<and> (\<forall>j<i. faults_in w (datafile S) (line_path line) (datasets ! j) ReadSamples = None)
      \<and> faults_in w (datafile S) (line_path line) (datasets ! i) ReadSamples = Some e"
  then have sel: "fst (select_datasets w1 (Group ms) (line_path line) bounds dc) = Inr datasets"
    and shapes: "\<forall>d\<in>set datasets. F d ReadShape = None"
    and i: "i < length datasets"
    and before: "\<forall>j<i. F (datasets ! j) ReadSamples = None"
    and at: "F (datasets ! i) ReadSamples = Some e"
    by (simp_all add: F_def)
  from datasets_vectors [OF select_datasets_Dataset [OF sel]] obtain vs
    where vs: "map (h5_getitem (Group ms)) datasets = map (\<lambda>v. Inr (Dataset v)) vs"
    by blast
  then have len: "length datasets = length vs"
    by (metis length_map)
  have nth: "h5_getitem (Group ms) (datasets ! k) = Inr (Dataset (vs ! k))" if "k < length vs" for k
    using that len vs by (metis nth_map)
  have ns: "mapM (sample_count F (Group ms)) datasets = Inr (map length vs)"
    using vs shapes by (rule sample_counts_eq)
  define m where "m = Max (length ` set vs)"
  from i len have ne: "vs \<noteq> []"
    by auto
  then have mx: "py_max (map length vs) = Inr m"
    by (simp add: py_max_Max m_def)
  have "\<forall>k<i. \<exists>v. read_samples F (Group ms) (datasets ! k) = Inr v
            \<and> map length vs ! (0 + k) = length v
            \<and> length v \<le> snd (shape (np_zeros (length datasets, m)))"
  proof (intro allI impI)
    fix k assume k: "k < i"
    with i len have kl: "k < length vs" by simp
    then have "length (vs ! k) \<le> m"
      by (simp add: m_def)
    with k kl before nth [OF kl]
    show "\<exists>v. read_samples F (Group ms) (datasets ! k) = Inr v
            \<and> map length vs ! (0 + k) = length v
            \<and> length v \<le> snd (shape (np_zeros (length datasets, m)))"
      by (simp add: read_samples_def np_zeros_def)
  qed
  moreover from i len nth [of i] at have "read_samples F (Group ms) (datasets ! i) = Inl e"
    by (simp add: read_samples_def)
  ultimately have "fill_rows F (Group ms) (map length vs) (np_zeros (length datasets, m)) 0 datasets
      = Inl e"
    using i by (intro fill_rows_first_fault) (simp_all add: np_zeros_def)
  with mx have "build_array F (Group ms) (map length vs) datasets = Inl e"
    by (simp add: build_array_def)
  with a ns show "fst (ExtractLine ops w S line bounds dc)
      = (if e = ValueError then Inr None else Inl e)"
    by (simp add: ExtractLine_after_metadata F_def)
next
  define F where "F = faults_in w (datafile S) (line_path line)"
  assume "fst (ExtractLine ops w S line bounds dc) = Inr (Some g)"
  from ExtractLine_Some_D [OF this] obtain rt w1 ms datasets w2 nsamples arr
    where op: "h5py_File_r w (datafile S) = (Inr rt, w1)"
      and lg: "h5_getitem (Group rt) (line_path line) = Inr (Group ms)"
      and sel: "select_datasets w1 (Group ms) (line_path line) bounds dc = (Inr datasets, w2)"
      and ns: "mapM (sample_count F (Group ms)) datasets = Inr nsamples"
      and ba: "build_array F (Group ms) nsamples datasets = Inr arr"
      and g: "g_data g = transpose_nd arr"
    unfolding F_def by blast
  from ba ns have ne: "datasets \<noteq> []"
    by (rule build_array_nonempty)
  from sample_counts_D(1) [OF ns] obtain vs
    where vs: "map (h5_getitem (Group ms)) datasets = map (\<lambda>v. Inr (Dataset v)) vs"
      and nsamples: "nsamples = map length vs"
    by blast
  from sample_counts_D(2) [OF ns] build_array_reads [OF ba]
  have nf: "\<forall>d\<in>set datasets. F d ReadShape = None \<and> F d ReadSamples = None"
    by simp
  from vs have len: "length datasets = length vs"
    by (metis length_map)
  from build_array_eq(2) [OF ne vs nf] ba nsamples
  have "arr = \<lparr>shape = (length vs, Max (length ` set vs)),
               rows = map (\<lambda>v. v @ replicate (Max (length ` set vs) - length v) 0) vs\<rparr>"
    by simp
  with g have "g_data g = \<lparr>shape = (Max (length ` set vs), length vs),
      rows = map (\<lambda>i. map (\<lambda>v. if i < length v then v ! i else 0) vs) [0..<Max (length ` set vs)]\<rparr>"
    by (simp add: transpose_padded)
  with op lg sel ne vs len nf
  show "\<exists>rt w1 ms datasets vs.
           h5py_File_r w (datafile S) = (Inr rt, w1)
           \<and> h5_getitem (Group rt) (line_path line) = Inr (Group ms)
           \<and> fst (select_datasets w1 (Group ms) (line_path line) bounds dc) = Inr datasets
           \<and> datasets \<noteq> []
           \<and> (\<forall>d\<in>set datasets.
                 faults_in w (datafile S) (line_path line) d ReadShape = None
                 \<and> faults_in w (datafile S) (line_path line) d ReadSamples = None)
           \<and> map (h5_getitem (Group ms)) datasets = map (\<lambda>v. Inr (Dataset v)) vs
           \<and> shape (g_data g) = (Max (length ` set vs), length datasets)
           \<and> length (rows (g_data g)) = Max (length ` set vs)
           \<and> (\<forall>r\<in>set (rows (g_data g)). length r = length datasets)
           \<and> rows (g_data g)
               = map (\<lambda>i. map (\<lambda>v. if i < length v then v ! i else 0) vs)
                   [0..<Max (length ` set vs)]"
    unfolding F_def
    by (intro exI [of _ rt] exI [of _ w1] exI [of _ ms] exI [of _ datasets] exI [of _ vs]) auto
qed

lemma ex_select_1:
  "fst (select_datasets w (Group ex_line0) (line_path 0) [None, None] (Single 1))
     = Inr [''location_0/datacapture_1/echogram_0'', ''location_2/datacapture_1/echogram_0'',
            ''location_10/datacapture_1/echogram_0'']"
proof -
  have "fst (select_datasets ex_world (Group ex_line0) ''line_0'' [None, None] (Single 1))
     = Inr [''location_0/datacapture_1/echogram_0'', ''location_2/datacapture_1/echogram_0'',
            ''location_10/datacapture_1/echogram_0'']"
    by code_simp
  then show ?thesis
    unfolding line_path_0 by (subst select_datasets_any_world [where w' = ex_world])
qed

lemma ex_select_5:
  "fst (select_datasets w (Group ex_line0) (line_path 0) [None, None] (Single 5)) = Inr []"
proof -
  have "fst (select_datasets ex_world (Group ex_line0) ''line_0'' [None, None] (Single 5)) = Inr []"
    by code_simp
  then show ?thesis
    unfolding line_path_0 by (subst select_datasets_any_world [where w' = ex_world])
qed

text \<open>
  On the small store, line 0. Channel 5 does not exist: the call returns \<^verbatim>\<open>None\<close> after
  the two messages. Channel 0, where the second kept record is the one of location 2: a
  \<^verbatim>\<open>ValueError\<close> of its sample count escapes; an \<^verbatim>\<open>IOError\<close> of its samples escapes; a
  \<^verbatim>\<open>ValueError\<close> of its samples is caught, and the call returns \<^verbatim>\<open>None\<close>. Channel 1, without
  faults: the gather returned has an array with three columns.
\<close>

theorem C2_no_records_failed_reads_never_ragged_witness:
  "fst (ExtractLine ex_ops ex_world ex_survey 0 [None, None] (Single 5)) = Inr None
   \<and> stderr (fst (snd (ExtractLine ex_ops ex_world ex_survey 0 [None, None] (Single 5))))
       = [NoDatasetsMatch, FailedToIndex ''line_0'']
   \<and> fst (ExtractLine ex_ops (ex_shape_fault ValueError) ex_survey 0 [None, None] (Single 0))
       = Inl ValueError
   \<and> fst (ExtractLine ex_ops (ex_samples_fault IOError) ex_survey 0 [None, None] (Single 0))
       = Inl IOError
   \<and> fst (ExtractLine ex_ops (ex_samples_fault ValueError) ex_survey 0 [None, None] (Single 0))
       = Inr None
   \<and> (\<exists>g. fst (ExtractLine ex_ops ex_world ex_survey 0 [None, None] (Single 1)) = Inr (Some g)
          \<and> length (rows (g_data g)) = 7
          \<and> list_all (\<lambda>r. length r = 3) (rows (g_data g)))"
proof -
  define datasets where
    "datasets = [''location_0/datacapture_0/echogram_0'', ''location_2/datacapture_0/echogram_0'',
                 ''location_10/datacapture_0/echogram_0'']"
  define metadata where
    "metadata = [''0000000000000000'', ''0000000200000000'', ''0000001000000000'']"
  have stages: "h5py_File_r w (datafile ex_survey)
        = (Inr ex_store, w\<lparr>opened := opened w @ [(''s.h5'', False)]\<rparr>)
      \<and> h5_getitem (Group ex_store) (line_path 0) = Inr (Group ex_line0)
      \<and> fst (select_datasets (w\<lparr>opened := opened w @ [(''s.h5'', False)]\<rparr>) (Group ex_line0)
               (line_path 0) [None, None] (Single 0)) = Inr datasets
      \<and> fst (grab_metadata ex_ops (Group ex_line0) (line_path 0)
               (RecordList ex_ops (datafile ex_survey))
               (snd (select_datasets (w\<lparr>opened := opened w @ [(''s.h5'', False)]\<rparr>)
                      (Group ex_line0) (line_path 0) [None, None] (Single 0))) datasets)
           = Inr metadata"
    if "files w ''s.h5'' = Some (HDF5 ex_store)" for w
    using ex_open [OF that] ex_line_0 ex_select_0 ex_metadata_0
    by (simp add: datasets_def metadata_def)
  have one: "(1::nat) < length datasets"
    by (simp add: datasets_def)
  \<comment> \<open>no records\<close>
  have f0: "files ex_world ''s.h5'' = Some (HDF5 ex_store)"
    by (simp add: ex_world_def)
  have e5: "stderr (snd (select_datasets (ex_world\<lparr>opened := opened ex_world @ [(''s.h5'', False)]\<rparr>)
               (Group ex_line0) (line_path 0) [None, None] (Single 5))) = [NoDatasetsMatch]"
    unfolding line_path_0 by code_simp
  have w1: "fst (ExtractLine ex_ops ex_world ex_survey 0 [None, None] (Single 5)) = Inr None
   \<and> stderr (fst (snd (ExtractLine ex_ops ex_world ex_survey 0 [None, None] (Single 5))))
       = [NoDatasetsMatch, FailedToIndex ''line_0'']"
    using C2_no_records_failed_reads_never_ragged
      [where w = ex_world and S = ex_survey and rt = ex_store and line = 0 and ms = ex_line0
        and ?w1.0 = "ex_world\<lparr>opened := opened ex_world @ [(''s.h5'', False)]\<rparr>"
        and bounds = "[None, None]" and dc = "Single 5" and ops = ex_ops,
        THEN conjunct1]
      ex_open [OF f0] ex_line_0 ex_select_5 e5
    by (simp add: line_path_0)
  \<comment> \<open>the sample count of the second record cannot be read\<close>
  have fs: "files (ex_shape_fault ValueError) ''s.h5'' = Some (HDF5 ex_store)"
    by (simp add: ex_shape_fault_def ex_world_def)
  have s1: "\<forall>j<1. faults_in (ex_shape_fault ValueError) (datafile ex_survey) (line_path 0)
               (datasets ! j) ReadShape = None"
    and s2: "faults_in (ex_shape_fault ValueError) (datafile ex_survey) (line_path 0)
               (datasets ! 1) ReadShape = Some ValueError"
    by (simp_all add: datasets_def faults_in_def ex_shape_fault_def ex_survey_def line_path_0
        ds_name_def)
  have w2: "fst (ExtractLine ex_ops (ex_shape_fault ValueError) ex_survey 0 [None, None] (Single 0))
       = Inl ValueError"
    using C2_no_records_failed_reads_never_ragged
      [where w = "ex_shape_fault ValueError" and S = ex_survey and rt = ex_store and line = 0
        and ms = ex_line0 and bounds = "[None, None]" and dc = "Single 0" and ops = ex_ops
        and datasets = datasets and metadata = metadata and i = 1 and e = ValueError
        and ?w1.0 = "(ex_shape_fault ValueError)\<lparr>opened := opened (ex_shape_fault ValueError)
                        @ [(''s.h5'', False)]\<rparr>",
        THEN conjunct2, THEN conjunct1]
      stages [OF fs] one s1 s2
    by simp
  \<comment> \<open>the samples of the second record cannot be read\<close>
  have fr: "files (ex_samples_fault e) ''s.h5'' = Some (HDF5 ex_store)" for e
    by (simp add: ex_samples_fault_def ex_world_def)
  have r0: "\<forall>d\<in>set datasets. faults_in (ex_samples_fault e) (datafile ex_survey) (line_path 0)
               d ReadShape = None" for e
    by (simp add: datasets_def faults_in_def ex_samples_fault_def)
  have r1: "\<forall>j<1. faults_in (ex_samples_fault e) (datafile ex_survey) (line_path 0)
               (datasets ! j) ReadSamples = None"
    and r2: "faults_in (ex_samples_fault e) (datafile ex_survey) (line_path 0)
               (datasets ! 1) ReadSamples = Some e" for e
    by (simp_all add: datasets_def faults_in_def ex_samples_fault_def ex_survey_def line_path_0
        ds_name_def)
  have w3: "fst (ExtractLine ex_ops (ex_samples_fault e) ex_survey 0 [None, None] (Single 0))
       = (if e = ValueError then Inr None else Inl e)" for e
    using C2_no_records_failed_reads_never_ragged
      [where w = "ex_samples_fault e" and S = ex_survey and rt = ex_store and line = 0
        and ms = ex_line0 and bounds = "[None, None]" and dc = "Single 0" and ops = ex_ops
        and datasets = datasets and metadata = metadata and i = 1 and e = e
        and ?w1.0 = "(ex_samples_fault e)\<lparr>opened := opened (ex_samples_fault e)
                        @ [(''s.h5'', False)]\<rparr>",
        THEN conjunct2, THEN conjunct2, THEN conjunct1]
      stages [OF fr] r0 one r1 r2
    by simp
  \<comment> \<open>a gather\<close>
  have run: "(case fst (ExtractLine ex_ops ex_world ex_survey 0 [None, None] (Single 1)) of
               Inr (Some g) \<Rightarrow> True | _ \<Rightarrow> False)"
    by code_simp
  then obtain g where g: "fst (ExtractLine ex_ops ex_world ex_survey 0 [None, None] (Single 1))
      = Inr (Some g)"
    by (auto split: sum.splits option.splits)
  from C2_no_records_failed_reads_never_ragged
    [where w = ex_world and S = ex_survey and line = 0 and bounds = "[None, None]"
      and dc = "Single 1" and ops = ex_ops and g = g,
      THEN conjunct2, THEN conjunct2, THEN conjunct2] g
  obtain rt' w1' ms' ds vs where
    a: "h5py_File_r ex_world (datafile ex_survey) = (Inr rt', w1')"
    and b: "h5_getitem (Group rt') (line_path 0) = Inr (Group ms')"
    and c: "fst (select_datasets w1' (Group ms') (line_path 0) [None, None] (Single 1)) = Inr ds"
    and v: "map (h5_getitem (Group ms')) ds = map (\<lambda>v. Inr (Dataset v)) vs"
    and n: "length (rows (g_data g)) = Max (length ` set vs)"
    and r: "\<forall>r\<in>set (rows (g_data g)). length r = length ds"
    by blast
  from a ex_open [OF f0] have "rt' = ex_store" by simp
  with b ex_line_0 have ms': "ms' = ex_line0" by simp
  with c ex_select_1 have ds: "ds = [''location_0/datacapture_1/echogram_0'',
      ''location_2/datacapture_1/echogram_0'', ''location_10/datacapture_1/echogram_0'']"
    by simp
  with v ms' have "map (\<lambda>v. Inr (Dataset v) :: py_error + h5node) vs
      = map (\<lambda>v. Inr (Dataset v)) [[101, 102, 103, 104, 105], [101, 102, 103],
          [101, 102, 103, 104, 105, 106, 107]]"
    by (simp add: ex_line0_def h5_getitem_def ex_location_def)
  then have "vs = [[101, 102, 103, 104, 105], [101, 102, 103], [101, 102, 103, 104, 105, 106, 107]]"
    by (auto simp add: map_eq_Cons_conv)
  with n have "length (rows (g_data g)) = 7"
    by simp
  moreover from r ds have "list_all (\<lambda>r. length r = 3) (rows (g_data g))"
    by (simp add: list_all_iff)
  ultimately have w4: "\<exists>g. fst (ExtractLine ex_ops ex_world ex_survey 0 [None, None] (Single 1))
      = Inr (Some g) \<and> length (rows (g_data g)) = 7
      \<and> list_all (\<lambda>r. length r = 3) (rows (g_data g))"
    using g by blast
  from w1 w2 w3 [of IOError] w3 [of ValueError] w4 show ?thesis
    by simp
qed

text \<open>
  The claim as first stated fails on the small store. With channel 5 no record of line 0
  is kept, and the call does not raise; it returns \<^verbatim>\<open>None\<close>. With channel 0 and a
  \<^verbatim>\<open>ValueError\<close> raised where the samples of one kept record are read, the call does not
  raise either; it returns \<^verbatim>\<open>None\<close>.
\<close>

theorem C2_empty_list_no_error_counterexample:
  "fst (select_datasets (snd (h5py_File_r ex_world ''s.h5'')) (Group ex_line0)
          ''line_0'' [None, None] (Single 5)) = Inr []
   \<and> fst (ExtractLine ex_ops ex_world ex_survey 0 [None, None] (Single 5)) = Inr None
   \<and> fst (ExtractLine ex_ops (ex_samples_fault ValueError) ex_survey 0 [None, None] (Single 0))
       = Inr None"
proof -
  have "(case fst (ExtractLine ex_ops ex_world ex_survey 0 [None, None] (Single 5)) of
           Inr None \<Rightarrow> True | _ \<Rightarrow> False)"
    by code_simp
  then have "fst (ExtractLine ex_ops ex_world ex_survey 0 [None, None] (Single 5)) = Inr None"
    by (auto split: sum.splits option.splits)
  moreover
  have "(case fst (ExtractLine ex_ops (ex_samples_fault ValueError) ex_survey 0 [None, None]
                (Single 0)) of
           Inr None \<Rightarrow> True | _ \<Rightarrow> False)"
    by code_simp
  then have "fst (ExtractLine ex_ops (ex_samples_fault ValueError) ex_survey 0 [None, None]
      (Single 0)) = Inr None"
    by (auto split: sum.splits option.splits)
  moreover have "fst (select_datasets (snd (h5py_File_r ex_world ''s.h5'')) (Group ex_line0)
          ''line_0'' [None, None] (Single 5)) = Inr []"
    by code_simp
  ultimately show ?thesis by simp
qed

section \<open>Channels in a line\<close>

lemma split_chr_no_sep:
  assumes "c \<notin> set s"
  shows "split_chr c s = [s]"
  using assms by (induction s) auto

lemma h5_getitem_member:
  assumes "valid_name n"
  shows "h5_getitem (Group ms) n = (case map_of ms n of None \<Rightarrow> Inl KeyError | Some nd \<Rightarrow> Inr nd)"
  using assms by (simp add: valid_name_def h5_getitem_def split_chr_no_sep split: option.splits)

lemma h5_getitem_member_in:
  assumes "valid_members ms" and "m \<in> set ms"
  shows "h5_getitem (Group ms) (fst m) = Inr (snd m)"
proof -
  from assms have "valid_name (fst m)"
    by (auto simp add: valid_members_def list_all_iff)
  moreover from assms have "map_of ms (fst m) = Some (snd m)"
    by (simp add: valid_members_def)
  ultimately show ?thesis
    by (simp add: h5_getitem_member)
qed

lemma h5_len_location:
  assumes "is_location nd"
  shows "h5_len nd = channel_groups nd"
proof (cases nd)
  case (Dataset v)
  with assms show ?thesis by (simp add: is_location_def)
next
  case (Group ms)
  with assms have "filter (\<lambda>m. is_Group (snd m)) ms = ms"
    by (simp add: is_location_def list_all_iff)
  with Group show ?thesis
    by (simp add: h5_len_def channel_groups_def)
qed

text \<open>
  The argument taken as a position. Let the survey's file be a store, \<^verbatim>\<open>GetLines\<close>
  return \<^verbatim>\<open>lines\<close>, and \<^verbatim>\<open>lineno\<close> be the position of the line \<^verbatim>\<open>lname\<close> in that list, a
  group with the members \<^verbatim>\<open>locs\<close>, each of them a location laid out as the store layout
  says. Then \<^verbatim>\<open>GetChannelsInLine\<close> raises \<^verbatim>\<open>EmptyLineError\<close> when that line has no
  location, and otherwise returns the maximum over its locations of the number of channel
  groups under the location.
\<close>

lemma GetChannelsInLine_by_position:
  assumes "files w (datafile S) = Some (HDF5 rt)"
    and "fst (GetLines w S) = Inr lines"
    and "py_getitem lines lineno = Inr lname"
    and "h5_getitem (Group rt) lname = Inr (Group locs)"
    and "valid_members locs"
    and "list_all (\<lambda>m. is_location (snd m)) locs"
  shows "fst (GetChannelsInLine w S lineno)
           = (if locs = [] then Inl EmptyLineError
              else Inr (Max ((\<lambda>m. channel_groups (snd m)) ` set locs)))"
proof -
  define w1 where "w1 = w\<lparr>opened := opened w @ [(datafile S, False)]\<rparr>"
  define w2 where "w2 = w1\<lparr>opened := opened w1 @ [(datafile S, False)]\<rparr>"
  have o1: "h5py_File_r w (datafile S) = (Inr rt, w1)"
    using assms(1) by (simp add: h5py_File_r_def w1_def)
  have o2: "h5py_File_r w1 (datafile S) = (Inr rt, w2)"
    using assms(1) by (simp add: h5py_File_r_def w1_def w2_def)
  from assms(2) o1 have gl: "GetLines w S = (Inr lines, w1)"
    by (simp add: GetLines_def)
  have keys: "h5_keys (Group locs) = Inr (map fst locs)"
    by (simp add: h5_keys_def)
  show ?thesis
  proof (cases "locs = []")
    case True
    with gl assms(3) o2 assms(4) keys show ?thesis
      by (simp add: GetChannelsInLine_def)
  next
    case False
    have "map (\<lambda>loc. case h5_getitem (Group locs) loc of
                        Inl e \<Rightarrow> Inl e | Inr nd \<Rightarrow> Inr (h5_len nd)) (map fst locs)
            = map Inr (map (\<lambda>m. h5_len (snd m)) locs)"
      by (simp add: h5_getitem_member_in [OF assms(5)])
    also have "map (\<lambda>m. h5_len (snd m)) locs = map (\<lambda>m. channel_groups (snd m)) locs"
      using assms(6) by (auto simp add: list_all_iff h5_len_location)
    finally have "mapM (\<lambda>loc. case h5_getitem (Group locs) loc of
                        Inl e \<Rightarrow> Inl e | Inr nd \<Rightarrow> Inr (h5_len nd)) (map fst locs)
            = Inr (map (\<lambda>m. channel_groups (snd m)) locs)"
      by (rule mapM_Inr_map)
    moreover have "py_max (map (\<lambda>m. channel_groups (snd m)) locs)
            = Inr (Max ((\<lambda>m. channel_groups (snd m)) ` set locs))"
      using False by (simp add: py_max_Max)
    ultimately show ?thesis
      using False gl assms(3) o2 assms(4) keys by (simp add: GetChannelsInLine_def)
  qed
qed

text \<open>
  On the small store, where the lines are numbered from 0: the line at position 0 has
  three channels at every location, and the line at position 1 has no location.
\<close>

lemma GetChannelsInLine_small_store:
  "fst (GetChannelsInLine ex_world ex_survey 0) = Inr 3
   \<and> fst (GetChannelsInLine ex_world ex_survey 1) = Inl EmptyLineError"
proof -
  define locs where "locs = ex_line0"
  have f: "files ex_world (datafile ex_survey) = Some (HDF5 ex_store)"
    by (simp add: ex_world_def ex_survey_def)
  have gl: "fst (GetLines ex_world ex_survey) = Inr [''line_0'', ''line_1'']"
    by code_simp
  have i0: "py_getitem [''line_0'', ''line_1''] 0 = Inr ''line_0''"
    and i1: "py_getitem [''line_0'', ''line_1''] 1 = Inr ''line_1''"
    by (simp_all add: py_getitem_def)
  have l0: "h5_getitem (Group ex_store) ''line_0'' = Inr (Group locs)"
    and l1: "h5_getitem (Group ex_store) ''line_1'' = Inr (Group [])"
    by (simp_all add: h5_getitem_def ex_store_def locs_def ex_line0_def)
  have v0: "valid_members locs" and v1: "valid_members []"
    by (simp_all add: valid_members_def valid_name_def locs_def ex_line0_def)
  have a0: "list_all (\<lambda>m. is_location (snd m)) locs"
    and a1: "list_all (\<lambda>m. is_location (snd m)) []"
    by (simp_all add: locs_def ex_line0_def is_location_def ex_location_def is_Group_def)
  have m: "Max ((\<lambda>m. channel_groups (snd m)) ` set locs) = 3" and ne: "locs \<noteq> []"
    by (simp_all add: locs_def ex_line0_def channel_groups_def ex_location_def is_Group_def)
  from GetChannelsInLine_by_position [OF f gl i0 l0 v0 a0]
    GetChannelsInLine_by_position [OF f gl i1 l1 v1 a1] m ne
  show ?thesis by simp
qed

text \<open>
  C8, on the store with the lines 1 and 3. \<^verbatim>\<open>GetLines\<close> returns the two lines, the
  location of \<^verbatim>\<open>line_1\<close> has two channel groups and the location of \<^verbatim>\<open>line_3\<close> has
  five. For the line number 1 \<^verbatim>\<open>GetChannelsInLine\<close> returns 5, the count of \<^verbatim>\<open>line_3\<close>,
  and for the line number 3 it raises \<^verbatim>\<open>TypeError\<close>.
\<close>

theorem C8_line_number_taken_as_position:
  "fst (GetLines ex_gap_world ex_survey) = Inr [''line_1'', ''line_3'']
   \<and> map (\<lambda>name. map_sum id channel_groups (h5_getitem (Group ex_gap_store) name))
         [''line_1/location_0'', ''line_3/location_0''] = [Inr 2, Inr 5]
   \<and> fst (GetChannelsInLine ex_gap_world ex_survey 1) = Inr 5
   \<and> fst (GetChannelsInLine ex_gap_world ex_survey 3) = Inl TypeError"
  by code_simp

section \<open>The FID\<close>

subsection \<open>Decimal digits\<close>

lemma digit_cases:
  assumes "d < (10::nat)"
  shows "d = 0 \<or> d = 1 \<or> d = 2 \<or> d = 3 \<or> d = 4 \<or> d = 5 \<or> d = 6 \<or> d = 7 \<or> d = 8 \<or> d = 9"
  using assms by arith

lemma is_digit_digit_chr:
  assumes "d < 10"
  shows "is_digit (digit_chr d)"
  using digit_cases [OF assms] by (auto simp add: is_digit_def digit_chr_def digits_def)

lemma digit_val_digit_chr:
  assumes "d < 10"
  shows "digit_val (digit_chr d) = d"
  using digit_cases [OF assms] by (auto simp add: digit_val_def digit_chr_def digits_def)

lemma is_digit_plain:
  assumes "is_digit c"
  shows "c \<noteq> CHR ''_''" and "c \<noteq> CHR ''/''" and "c \<noteq> CHR ''-''" and "c \<noteq> CHR ''+''"
    and "\<not> is_space c"
  using assms by (auto simp add: is_digit_def digits_def is_space_def)

lemma str_nat_digits: "\<forall>c\<in>set (str_nat n). is_digit c"
proof (induction n rule: str_nat.induct)
  case (1 n)
  show ?case
  proof (cases "n < 10")
    case True
    then show ?thesis
      by (subst str_nat.simps) (simp add: is_digit_digit_chr)
  next
    case False
    with 1 show ?thesis
      by (subst str_nat.simps) (simp add: is_digit_digit_chr)
  qed
qed

lemma str_nat_nonempty: "str_nat n \<noteq> []"
  by (subst str_nat.simps) simp

lemma digits_value_snoc:
  assumes "c \<noteq> CHR ''_''"
  shows "digits_value (s @ [c]) = 10 * digits_value s + digit_val c"
  using assms by (simp add: digits_value_def)

lemma digits_value_str_nat: "digits_value (str_nat n) = n"
proof (induction n rule: str_nat.induct)
  case (1 n)
  have nu: "digit_chr d \<noteq> CHR ''_''" if "d < 10" for d
    using that by (simp add: is_digit_plain(1) is_digit_digit_chr)
  show ?case
  proof (cases "n < 10")
    case True
    then show ?thesis
      by (subst str_nat.simps) (simp add: digits_value_def digit_val_digit_chr nu)
  next
    case False
    have "digit_chr (n mod 10) \<noteq> CHR ''_''"
      by (simp add: nu)
    with False 1 show ?thesis
      by (subst str_nat.simps) (simp add: digits_value_snoc digit_val_digit_chr)
  qed
qed

lemma digits_ok_digits:
  assumes "s \<noteq> []" and "\<forall>c\<in>set s. is_digit c"
  shows "digits_ok s"
  using assms by (induction s rule: digits_ok.induct) (auto simp add: is_digit_plain(1))

lemma strip_digits:
  assumes "\<forall>c\<in>set s. is_digit c"
  shows "strip s = s"
proof -
  have a: "dropWhile is_space t = t" if "\<forall>c\<in>set t. is_digit c" for t
    using that by (cases t) (auto simp add: is_digit_plain(5))
  from assms have "dropWhile is_space (rev (dropWhile is_space s)) = rev s"
    by (simp add: a)
  then show ?thesis
    by (simp add: strip_def)
qed

text \<open>Reading back what \<^verbatim>\<open>str\<close> wrote, for an integer that is not negative.\<close>

lemma py_int_py_str:
  assumes "0 \<le> i"
  shows "py_int (py_str i) = Inr i"
proof -
  define s where "s = str_nat (nat i)"
  have d: "\<forall>c\<in>set s. is_digit c" and ne: "s \<noteq> []"
    by (simp_all add: s_def str_nat_digits str_nat_nonempty)
  then have "is_digit (hd s)"
    by simp
  then have h: "hd s \<noteq> CHR ''-''" "hd s \<noteq> CHR ''+''"
    by (simp_all add: is_digit_plain)
  have "digits_value s = nat i"
    by (simp add: s_def digits_value_str_nat)
  with assms d ne h show ?thesis
    by (simp add: py_int_def py_str_def s_def [symmetric] strip_digits digits_ok_digits)
qed

lemma py_str_plain:
  assumes "0 \<le> i"
  shows "CHR ''_'' \<notin> set (py_str i)" and "CHR ''/'' \<notin> set (py_str i)"
  using assms str_nat_digits [of "nat i"] by (auto simp add: py_str_def dest: is_digit_plain)

lemma length_str_nat:
  assumes "n < 10 ^ k" and "0 < k"
  shows "length (str_nat n) \<le> k"
  using assms
proof (induction n arbitrary: k rule: str_nat.induct)
  case (1 n)
  show ?case
  proof (cases "n < 10")
    case True
    with 1 show ?thesis
      by (subst str_nat.simps) simp
  next
    case False
    from "1.prems" obtain j where k: "k = Suc j"
      by (cases k) auto
    with False "1.prems" have j: "0 < j"
      by (cases j) auto
    from "1.prems" k have "n div 10 < 10 ^ j"
      by (simp add: less_mult_imp_div_less mult.commute)
    from "1.IH" [OF False this j] False k show ?thesis
      by (subst str_nat.simps) simp
  qed
qed

lemma length_py_str:
  assumes "0 \<le> i" and "i \<le> 9999"
  shows "length (py_str i) \<le> 4"
proof -
  from assms have "nat i < 10 ^ 4"
    by simp
  then have "length (str_nat (nat i)) \<le> 4"
    by (rule length_str_nat) simp
  with assms show ?thesis
    by (simp add: py_str_def)
qed

subsection \<open>Splitting a path\<close>

lemma split_chr_field:
  assumes "c \<notin> set a"
  shows "split_chr c (a @ c # rest) = a # split_chr c rest"
  using assms by (induction a) auto

lemma rsplit1_last:
  assumes "c \<notin> set d"
  shows "rsplit1 c (pre @ c # d) = [pre, d]"
proof -
  have r: "rev (pre @ c # d) = rev d @ c # rev pre"
    by simp
  from assms have "takeWhile (\<lambda>x. x \<noteq> c) (rev d @ c # rev pre)
      = rev d @ takeWhile (\<lambda>x. x \<noteq> c) (c # rev pre)"
    by (intro takeWhile_append2) auto
  moreover from assms have "dropWhile (\<lambda>x. x \<noteq> c) (rev d @ c # rev pre)
      = dropWhile (\<lambda>x. x \<noteq> c) (c # rev pre)"
    by (intro dropWhile_append2) auto
  ultimately show ?thesis
    unfolding rsplit1_def r by simp
qed

lemma component_index_py_str:
  assumes "0 \<le> i"
  shows "component_index (pre @ CHR ''_'' # py_str i) = Inr i"
  using assms
  by (simp add: component_index_def rsplit1_last py_str_plain(1) py_getitem_def py_int_py_str)

lemma trace_path_indices:
  assumes "0 \<le> lin" and "0 \<le> loc" and "0 \<le> dc" and "0 \<le> eg"
  shows "mapM component_index (split_chr (CHR ''/'') (drop 1 (trace_path lin loc dc eg)))
           = Inr [lin, loc, dc, eg]"
proof -
  define a where "a = ''ine'' @ CHR ''_'' # py_str lin"
  define b where "b = ''location'' @ CHR ''_'' # py_str loc"
  define c where "c = ''datacapture'' @ CHR ''_'' # py_str dc"
  define d where "d = ''echogram'' @ CHR ''_'' # py_str eg"
  have ns: "CHR ''/'' \<notin> set a" "CHR ''/'' \<notin> set b" "CHR ''/'' \<notin> set c" "CHR ''/'' \<notin> set d"
    using assms by (simp_all add: a_def b_def c_def d_def py_str_plain(2))
  have ci: "component_index a = Inr lin" "component_index b = Inr loc"
    "component_index c = Inr dc" "component_index d = Inr eg"
    unfolding a_def b_def c_def d_def using assms by (simp_all only: component_index_py_str)
  have "drop 1 (trace_path lin loc dc eg) = a @ CHR ''/'' # b @ CHR ''/'' # c @ CHR ''/'' # d"
    by (simp add: trace_path_def a_def b_def c_def d_def)
  moreover have "split_chr (CHR ''/'') (a @ CHR ''/'' # b @ CHR ''/'' # c @ CHR ''/'' # d)
      = [a, b, c, d]"
    using ns by (simp add: split_chr_field split_chr_no_sep)
  ultimately show ?thesis
    using ci by simp
qed

subsection \<open>Four digits for each index\<close>

lemma digits_value_zeros: "digits_value (replicate k (CHR ''0'') @ s) = digits_value s"
proof -
  have "foldl (\<lambda>a c. 10 * a + digit_val c) 0 (replicate k (CHR ''0'')) = 0"
    by (induction k) (simp_all add: digit_val_def digits_def)
  then show ?thesis
    by (simp add: digits_value_def)
qed

lemma rjust_py_str:
  assumes "0 \<le> i" and "i \<le> 9999"
  shows "length (rjust 4 (CHR ''0'') (py_str i)) = 4"
    and "digits_value (rjust 4 (CHR ''0'') (py_str i)) = nat i"
    and "\<forall>c\<in>set (rjust 4 (CHR ''0'') (py_str i)). is_digit c"
proof -
  from length_py_str [OF assms] show "length (rjust 4 (CHR ''0'') (py_str i)) = 4"
    by (simp add: rjust_def)
  from assms(1) show "digits_value (rjust 4 (CHR ''0'') (py_str i)) = nat i"
    by (simp add: rjust_def digits_value_zeros py_str_def digits_value_str_nat)
  have "is_digit (CHR ''0'')"
    by (simp add: is_digit_def digits_def)
  with assms(1) str_nat_digits [of "nat i"]
  show "\<forall>c\<in>set (rjust 4 (CHR ''0'') (py_str i)). is_digit c"
    by (auto simp add: rjust_def py_str_def)
qed

lemma rjust_py_str_inj:
  assumes "0 \<le> i" and "i \<le> 9999" and "0 \<le> j" and "j \<le> 9999"
    and "rjust 4 (CHR ''0'') (py_str i) = rjust 4 (CHR ''0'') (py_str j)"
  shows "i = j"
proof -
  from assms(5) have "digits_value (rjust 4 (CHR ''0'') (py_str i))
      = digits_value (rjust 4 (CHR ''0'') (py_str j))"
    by simp
  with assms(1-4) have "nat i = nat j"
    by (simp add: rjust_py_str(2))
  with assms(1) assms(3) show ?thesis
    by simp
qed

text \<open>
  C7. For a path whose four indices are between 0 and 9999, \<^verbatim>\<open>HDFpath2fid\<close> returns
  the four indices, each padded with zeros to four digits, one after the other: a
  string of 16 decimal digits. It is a function of the path, and two such paths have the
  same FID only when their indices are the same.
\<close>

theorem C7_fid_sixteen_digits_injective:
  assumes "0 \<le> lin \<and> lin \<le> 9999" and "0 \<le> loc \<and> loc \<le> 9999"
    and "0 \<le> dc \<and> dc \<le> 9999" and "0 \<le> eg \<and> eg \<le> 9999"
    and "0 \<le> lin' \<and> lin' \<le> 9999" and "0 \<le> loc' \<and> loc' \<le> 9999"
    and "0 \<le> dc' \<and> dc' \<le> 9999" and "0 \<le> eg' \<and> eg' \<le> 9999"
  shows "HDFpath2fid (trace_path lin loc dc eg)
           = Inr (rjust 4 (CHR ''0'') (py_str lin) @ rjust 4 (CHR ''0'') (py_str loc)
                  @ rjust 4 (CHR ''0'') (py_str dc) @ rjust 4 (CHR ''0'') (py_str eg))
         \<and> (\<exists>fid. HDFpath2fid (trace_path lin loc dc eg) = Inr fid \<and> length fid = 16
                \<and> (\<forall>c\<in>set fid. is_digit c))
         \<and> (HDFpath2fid (trace_path lin loc dc eg) = HDFpath2fid (trace_path lin' loc' dc' eg')
              \<longleftrightarrow> lin = lin' \<and> loc = loc' \<and> dc = dc' \<and> eg = eg')"
proof -
  have fid: "HDFpath2fid (trace_path a b c d)
           = Inr (rjust 4 (CHR ''0'') (py_str a) @ rjust 4 (CHR ''0'') (py_str b)
                  @ rjust 4 (CHR ''0'') (py_str c) @ rjust 4 (CHR ''0'') (py_str d))"
    if "0 \<le> a" "0 \<le> b" "0 \<le> c" "0 \<le> d" for a b c d
    using trace_path_indices [OF that] by (simp add: HDFpath2fid_def)
  have one: "HDFpath2fid (trace_path lin loc dc eg)
           = Inr (rjust 4 (CHR ''0'') (py_str lin) @ rjust 4 (CHR ''0'') (py_str loc)
                  @ rjust 4 (CHR ''0'') (py_str dc) @ rjust 4 (CHR ''0'') (py_str eg))"
    using assms by (intro fid) simp_all
  have two: "HDFpath2fid (trace_path lin' loc' dc' eg')
           = Inr (rjust 4 (CHR ''0'') (py_str lin') @ rjust 4 (CHR ''0'') (py_str loc')
                  @ rjust 4 (CHR ''0'') (py_str dc') @ rjust 4 (CHR ''0'') (py_str eg'))"
    using assms by (intro fid) simp_all
  have len: "length (rjust 4 (CHR ''0'') (py_str lin) @ rjust 4 (CHR ''0'') (py_str loc)
                  @ rjust 4 (CHR ''0'') (py_str dc) @ rjust 4 (CHR ''0'') (py_str eg)) = 16"
    using assms by (simp add: rjust_py_str(1))
  have dig: "\<forall>c\<in>set (rjust 4 (CHR ''0'') (py_str lin) @ rjust 4 (CHR ''0'') (py_str loc)
                  @ rjust 4 (CHR ''0'') (py_str dc) @ rjust 4 (CHR ''0'') (py_str eg)). is_digit c"
    using assms rjust_py_str(3) [of lin] rjust_py_str(3) [of loc] rjust_py_str(3) [of dc]
      rjust_py_str(3) [of eg]
    by auto
  have inj: "lin = lin' \<and> loc = loc' \<and> dc = dc' \<and> eg = eg'"
    if eq: "HDFpath2fid (trace_path lin loc dc eg) = HDFpath2fid (trace_path lin' loc' dc' eg')"
  proof -
    from eq one two have
      "rjust 4 (CHR ''0'') (py_str lin) @ rjust 4 (CHR ''0'') (py_str loc)
         @ rjust 4 (CHR ''0'') (py_str dc) @ rjust 4 (CHR ''0'') (py_str eg)
       = rjust 4 (CHR ''0'') (py_str lin') @ rjust 4 (CHR ''0'') (py_str loc')
         @ rjust 4 (CHR ''0'') (py_str dc') @ rjust 4 (CHR ''0'') (py_str eg')"
      by simp
    with assms have "rjust 4 (CHR ''0'') (py_str lin) = rjust 4 (CHR ''0'') (py_str lin')
        \<and> rjust 4 (CHR ''0'') (py_str loc) = rjust 4 (CHR ''0'') (py_str loc')
        \<and> rjust 4 (CHR ''0'') (py_str dc) = rjust 4 (CHR ''0'') (py_str dc')
        \<and> rjust 4 (CHR ''0'') (py_str eg) = rjust 4 (CHR ''0'') (py_str eg')"
      by (simp add: rjust_py_str(1))
    with assms show ?thesis
      by (blast intro: rjust_py_str_inj)
  qed
  from one len dig inj show ?thesis
    by auto
qed

text \<open>
  The FID of line 3, location 12, channel 0, echogram 1, and of the same path with line
  and location exchanged.
\<close>

theorem C7_fid_sixteen_digits_injective_witness:
  "HDFpath2fid (trace_path 3 12 0 1) = Inr ''0003001200000001''
   \<and> HDFpath2fid (trace_path 3 12 0 1) \<noteq> HDFpath2fid (trace_path 12 3 0 1)"
proof -
  have r: "rjust 4 (CHR ''0'') (py_str 3) @ rjust 4 (CHR ''0'') (py_str 12)
             @ rjust 4 (CHR ''0'') (py_str 0) @ rjust 4 (CHR ''0'') (py_str 1)
           = ''0003001200000001''"
    by code_simp
  have h: "0 \<le> (3::int) \<and> (3::int) \<le> 9999" "0 \<le> (12::int) \<and> (12::int) \<le> 9999"
    "0 \<le> (0::int) \<and> (0::int) \<le> 9999" "0 \<le> (1::int) \<and> (1::int) \<le> 9999"
    by simp_all
  note th = C7_fid_sixteen_digits_injective [OF h(1) h(2) h(3) h(4) h(2) h(1) h(3) h(4)]
  from th have "HDFpath2fid (trace_path 3 12 0 1)
           = Inr (rjust 4 (CHR ''0'') (py_str 3) @ rjust 4 (CHR ''0'') (py_str 12)
                  @ rjust 4 (CHR ''0'') (py_str 0) @ rjust 4 (CHR ''0'') (py_str 1))"
    by (rule conjunct1)
  with r have first: "HDFpath2fid (trace_path 3 12 0 1) = Inr ''0003001200000001''"
    by simp
  from th have "HDFpath2fid (trace_path 3 12 0 1) = HDFpath2fid (trace_path 12 3 0 1)
              \<longleftrightarrow> (3::int) = 12 \<and> (12::int) = 3 \<and> (0::int) = 0 \<and> (1::int) = 1"
    by blast
  then have "HDFpath2fid (trace_path 3 12 0 1) \<noteq> HDFpath2fid (trace_path 12 3 0 1)"
    by simp
  with first show ?thesis
    by (rule conjI)
qed

end
